theory Spec2Isabelle
  imports Complex_Main
begin

section \<open>Strings as Python sees them\<close>

text \<open>
  A Python \<^verbatim>\<open>str\<close> is a sequence of code points. The model uses \<^typ>\<open>string\<close>, one
  \<^typ>\<open>char\<close> per code point, so it covers the code points 0 to 255 (ASCII and Latin-1);
  \<^verbatim>\<open>len\<close> is \<^const>\<open>length\<close>. On this range \<^verbatim>\<open>str.lower()\<close> maps A-Z and the
  capital letters 192 to 222 (without the multiplication sign 215) to the code point 32
  above and leaves every other code point alone.
\<close>

definition lower_char :: "char \<Rightarrow> char" where
  "lower_char c =
     (let n = (of_char c :: nat)
      in if (65 \<le> n \<and> n \<le> 90) \<or> (192 \<le> n \<and> n \<le> 222 \<and> n \<noteq> 215)
         then char_of (n + 32) else c)"

definition lower :: "string \<Rightarrow> string" where
  "lower s = map lower_char s"

text \<open>\<^verbatim>\<open>s.startswith(p)\<close> and the substring test \<^verbatim>\<open>p in s\<close>.\<close>

definition startswith :: "string \<Rightarrow> string \<Rightarrow> bool" where
  "startswith s p = (take (length p) s = p)"

fun str_in :: "string \<Rightarrow> string \<Rightarrow> bool" where
  "str_in p [] = (p = [])"
| "str_in p (c # s) = (startswith (c # s) p \<or> str_in p s)"

text \<open>\<^verbatim>\<open>any(k in s for k in keywords)\<close>.\<close>

definition any_in :: "string list \<Rightarrow> string \<Rightarrow> bool" where
  "any_in keywords s = list_ex (\<lambda>k. str_in k s) keywords"

section \<open>Raw search results and candidates\<close>

text \<open>
  One line of the search tool's output, parsed, is a dictionary. The selector reads it
  with \<^verbatim>\<open>video.get(key)\<close>, which gives \<^verbatim>\<open>None\<close> for a missing key and for a
  \<^verbatim>\<open>null\<close> value alike: those fields are options. Two fields are read with a default,
  \<^verbatim>\<open>video.get(key, default)\<close>, where a key that is present with value \<^verbatim>\<open>null\<close> does
  not fall back to the default: they are of type \<open>field\<close>. Every field that is present
  holds a value of the type the search tool gives it (a string field that held a value of
  another type would be read as the empty string by the \<^verbatim>\<open>isinstance\<close> tests, as an
  absent one is).
\<close>

datatype 'a field = Absent | Null | Val 'a

record thumb =
  url :: "string option"

record video =
  v_id :: "string option"
  v_title :: "string option"
  v_channel :: "string field"
  v_uploader :: "string option"
  v_uploader_id :: "string option"
  v_channel_is_verified :: "bool option"
  v_description :: "string option"
  v_thumbnails :: "thumb list option"
  v_thumbnail :: "string option"
  v_duration :: "rat option"
  v_webpage_url :: "string field"
  v_view_count :: "int option"

text \<open>The score of a candidate is an integer or the string \<^verbatim>\<open>'N/A'\<close>.\<close>

datatype score = NA | Score int

record candidate =
  c_id :: "string option"
  c_title :: string
  c_channel :: string
  c_duration :: "rat option"
  c_url :: "string option"
  c_score :: score
  c_views :: "int option"
  c_thumbnail :: "string option"

text \<open>Python truthiness of an optional string: \<^verbatim>\<open>None\<close> and \<^verbatim>\<open>''\<close> are false.\<close>

fun truthy :: "string option \<Rightarrow> bool" where
  "truthy None = False"
| "truthy (Some s) = (s \<noteq> [])"

text \<open>\<^verbatim>\<open>x if isinstance(x, str) else ''\<close>.\<close>

fun str_or_empty :: "string option \<Rightarrow> string" where
  "str_or_empty None = []"
| "str_or_empty (Some s) = s"

definition vid_title :: "video \<Rightarrow> string" where
  "vid_title video = str_or_empty (v_title video)"

text \<open>\<^verbatim>\<open>video.get('channel', video.get('uploader'))\<close>, then the \<^verbatim>\<open>isinstance\<close> test.\<close>

definition channel :: "video \<Rightarrow> string" where
  "channel video =
     (case v_channel video of
        Val c \<Rightarrow> c
      | Null \<Rightarrow> []
      | Absent \<Rightarrow> str_or_empty (v_uploader video))"

definition uploader_id :: "video \<Rightarrow> string" where
  "uploader_id video = lower (str_or_empty (v_uploader_id video))"

definition is_verified :: "video \<Rightarrow> bool" where
  "is_verified video = (v_channel_is_verified video = Some True)"

text \<open>
  The \<^verbatim>\<open>'url'\<close> entry of a candidate: the \<^verbatim>\<open>webpage_url\<close> when the key is present, else
  the watch page built from the id, else \<^verbatim>\<open>'#'\<close>.
\<close>

definition candidate_url :: "video \<Rightarrow> string option" where
  "candidate_url video =
     (case v_webpage_url video of
        Val u \<Rightarrow> Some u
      | Null \<Rightarrow> None
      | Absent \<Rightarrow>
          (if truthy (v_id video)
           then Some (''https://www.youtube.com/watch?v='' @ str_or_empty (v_id video))
           else Some ''#''))"

definition mk_candidate :: "video \<Rightarrow> string option \<Rightarrow> score \<Rightarrow> candidate" where
  "mk_candidate video thumbnail_url sc =
     \<lparr> c_id = v_id video, c_title = vid_title video, c_channel = channel video,
       c_duration = v_duration video, c_url = candidate_url video, c_score = sc,
       c_views = v_view_count video, c_thumbnail = thumbnail_url \<rparr>"

subsection \<open>Thumbnail resolution\<close>

text \<open>
  The scoring loop's version: the last entry's url; when that is missing, the entries in
  reverse order up to the first that has one; when the list gives nothing, the top-level
  \<^verbatim>\<open>thumbnail\<close> field. \<open>scan_reversed\<close> is the inner \<^verbatim>\<open>for\<close> with its \<^verbatim>\<open>break\<close>; its
  second argument is the value of \<^verbatim>\<open>thumbnail_url\<close> so far.
\<close>

fun scan_reversed :: "thumb list \<Rightarrow> string option \<Rightarrow> string option" where
  "scan_reversed [] thumbnail_url = thumbnail_url"
| "scan_reversed (t # ts) thumbnail_url =
     (if truthy (url t) then url t else scan_reversed ts (url t))"

definition list_thumbnail :: "video \<Rightarrow> string option" where
  "list_thumbnail video =
     (case v_thumbnails video of
        None \<Rightarrow> None
      | Some thumbnails \<Rightarrow>
          (if thumbnails = [] then None
           else let thumbnail_url = url (last thumbnails)
                in if \<not> truthy thumbnail_url
                   then scan_reversed (rev thumbnails) thumbnail_url
                   else thumbnail_url))"

definition resolve_thumbnail :: "video \<Rightarrow> string option" where
  "resolve_thumbnail video =
     (let thumbnail_url = list_thumbnail video
      in if \<not> truthy thumbnail_url then v_thumbnail video else thumbnail_url)"

text \<open>
  The no-trust loop's version (lines 204 to 210). Its inner \<^verbatim>\<open>for\<close> is a one-line loop
  with no \<^verbatim>\<open>break\<close>: it runs over all the reversed entries, so \<^verbatim>\<open>thumbnail_url\<close> ends as
  the url of the first entry of the list. The \<^verbatim>\<open>if thumbnail_url: break\<close> on the next
  line stands after that loop, inside the loop over the videos: it leaves the loop over
  the videos. \<open>no_trust_thumbnail\<close> gives \<open>None\<close> for that \<^verbatim>\<open>break\<close> and \<open>Some\<close> of
  the thumbnail otherwise.
\<close>

fun assign_all :: "thumb list \<Rightarrow> string option \<Rightarrow> string option" where
  "assign_all [] thumbnail_url = thumbnail_url"
| "assign_all (t # ts) thumbnail_url = assign_all ts (url t)"

definition no_trust_thumbnail :: "video \<Rightarrow> string option option" where
  "no_trust_thumbnail video =
     (case v_thumbnails video of
        None \<Rightarrow> Some (v_thumbnail video)
      | Some thumbnails \<Rightarrow>
          (if thumbnails = [] then Some (v_thumbnail video)
           else let thumbnail_url = url (last thumbnails)
                in if \<not> truthy thumbnail_url
                   then (let thumbnail_url = assign_all (rev thumbnails) thumbnail_url
                         in if truthy thumbnail_url then None
                            else Some (v_thumbnail video))
                   else Some thumbnail_url))"

text \<open>The records at which the no-trust loop stops.\<close>

definition stops_no_trust_loop :: "video \<Rightarrow> bool" where
  "stops_no_trust_loop v =
     (case v_thumbnails v of
        None \<Rightarrow> False
      | Some thumbnails \<Rightarrow>
          thumbnails \<noteq> [] \<and> \<not> truthy (url (last thumbnails)) \<and> truthy (url (hd thumbnails)))"

section \<open>The selector\<close>

definition negative_keywords :: "string list" where
  "negative_keywords =
     [''lyric'', ''cover'', ''remix'', ''live'', ''reaction'', ''audio only'', ''visualizer'',
      ''fan cam'', ''instrumental'', ''karaoke'', ''parody'', ''chipmunk'', ''slowed'',
      ''reverb'', ''bass boosted'', ''tutorial'', ''lesson'', ''interview'', ''teaser'',
      ''trailer'', ''album version'', ''full album'', ''topic'', ''provided to youtube by'',
      ''8d audio'', ''nightcore'', ''extended'', ''mashup'', ''megamix'', ''clean'']"

definition positive_keywords :: "string list" where
  "positive_keywords = [''official music video'', ''official video'']"

definition description_keywords :: "string list" where
  "description_keywords = [''lyrics in description'', ''fan-made'', ''unofficial'']"

datatype reason = Select | Override | Search

text \<open>
  What the selector returns: \<^verbatim>\<open>None\<close>, a video id (a string), or the dictionary that asks
  for a manual action. \<open>RTypeError\<close> is the \<^verbatim>\<open>TypeError\<close> Python raises when the
  auto-select step compares the score \<^verbatim>\<open>'N/A'\<close> with a number.
\<close>

datatype filter_result =
    RNone
  | RId string
  | RManual reason "candidate list" string string
  | RTypeError

text \<open>\<^verbatim>\<open>return candidates[0].get('id')\<close>: a candidate without id returns \<^verbatim>\<open>None\<close>.\<close>

fun return_id :: "string option \<Rightarrow> filter_result" where
  "return_id None = RNone"
| "return_id (Some i) = RId i"

subsection \<open>No-trust mode (lines 199 to 216)\<close>

fun no_trust_loop :: "video list \<Rightarrow> candidate list \<Rightarrow> candidate list" where
  "no_trust_loop [] candidates = candidates"
| "no_trust_loop (video # videos) candidates =
     (case no_trust_thumbnail video of
        None \<Rightarrow> candidates
      | Some thumbnail_url \<Rightarrow>
          no_trust_loop videos (candidates @ [mk_candidate video thumbnail_url NA]))"

subsection \<open>Priority check for an official video (lines 220 to 231)\<close>

definition is_official_title :: "video \<Rightarrow> bool" where
  "is_official_title video = any_in positive_keywords (lower (vid_title video))"

definition is_official_channel :: "string \<Rightarrow> video \<Rightarrow> bool" where
  "is_official_channel artist_lower video =
     (let channel_lower = lower (channel video)
      in channel_lower = artist_lower \<or> str_in ''official'' channel_lower
         \<or> str_in ''vevo'' channel_lower \<or> str_in ''vevo'' (uploader_id video)
         \<or> is_verified video)"

definition has_negative :: "video \<Rightarrow> bool" where
  "has_negative video =
     any_in (filter (\<lambda>nk. nk \<notin> set [''audio only'', ''visualizer'']) negative_keywords)
       (lower (vid_title video))"

fun priority_check :: "string \<Rightarrow> video list \<Rightarrow> string option" where
  "priority_check artist_lower [] = None"
| "priority_check artist_lower (video # videos) =
     (if is_official_title video \<and> is_official_channel artist_lower video
         \<and> \<not> has_negative video \<and> truthy (v_id video)
      then v_id video
      else priority_check artist_lower videos)"

subsection \<open>Scoring (lines 234 to 281)\<close>

text \<open>
  The statements of the loop body in their order, each \<open>let\<close> one statement; the result
  is the score, the flag \<^verbatim>\<open>is_negative\<close> and \<^verbatim>\<open>has_title\<close>.
\<close>

definition score_video :: "string \<Rightarrow> string \<Rightarrow> video \<Rightarrow> int \<times> bool \<times> bool" where
  "score_video artist_lower title_lower video =
     (let vid_title_lower = lower (vid_title video);
          channel_lower = lower (channel video);
          description = lower (str_or_empty (v_description video));
          score = 0; is_negative = False;
          (score, is_negative) =
            (if any_in negative_keywords vid_title_lower
             then (score - (if any_in positive_keywords vid_title_lower then 5 else 20), True)
             else (score, is_negative));
          (score, is_negative) =
            (if \<not> is_negative \<and> description \<noteq> [] \<and> any_in description_keywords description
             then (score - 5, True)
             else (score, is_negative));
          score = (if any_in positive_keywords vid_title_lower then score + 10 else score);
          score =
            (if channel_lower = artist_lower \<or> str_in ''official'' channel_lower
                \<or> str_in ''vevo'' channel_lower \<or> str_in ''vevo'' (uploader_id video)
             then score + 8
             else if str_in artist_lower channel_lower then score + 5
             else if str_in ''topic'' channel_lower \<or> str_in ''various artists'' channel_lower
             then score - 5
             else score);
          has_artist = str_in artist_lower vid_title_lower;
          has_title = str_in title_lower vid_title_lower;
          score = (if has_artist \<and> has_title then score + 4
                   else if has_title then score + 2 else score);
          score =
            (case v_view_count video of
               None \<Rightarrow> score
             | Some view_count \<Rightarrow>
                 (if view_count \<noteq> 0
                  then (if view_count > 10000000 then score + 3
                        else if view_count > 1000000 then score + 2
                        else if view_count > 100000 then score + 1
                        else score)
                  else score));
          score = (if is_verified video then score + 5 else score);
          score =
            (case v_duration video of
               None \<Rightarrow> score
             | Some duration \<Rightarrow>
                 (if duration \<noteq> 0
                  then (let score = (if duration < 90 then score - 2 else score)
                        in if duration > 600 then score - 2 else score)
                  else score))
      in (score, is_negative, has_title))"

fun scoring_loop ::
  "bool \<Rightarrow> string \<Rightarrow> string \<Rightarrow> video list \<Rightarrow> candidate list \<Rightarrow> candidate list" where
  "scoring_loop is_override artist_lower title_lower [] candidates = candidates"
| "scoring_loop is_override artist_lower title_lower (video # videos) candidates =
     (let thumbnail_url = resolve_thumbnail video
      in if is_override
         then scoring_loop is_override artist_lower title_lower videos
                (candidates @ [mk_candidate video thumbnail_url NA])
         else (case score_video artist_lower title_lower video of
                 (score, is_negative, has_title) \<Rightarrow>
                   if \<not> is_negative \<and> (has_title \<or> score > 2)
                   then scoring_loop is_override artist_lower title_lower videos
                          (candidates @ [mk_candidate video thumbnail_url (Score score)])
                   else scoring_loop is_override artist_lower title_lower videos candidates))"

text \<open>The test of line 279 that keeps a scored candidate.\<close>

definition retained :: "string \<Rightarrow> string \<Rightarrow> video \<Rightarrow> bool" where
  "retained artist_lower title_lower video =
     (case score_video artist_lower title_lower video of
        (score, is_negative, has_title) \<Rightarrow> \<not> is_negative \<and> (has_title \<or> score > 2))"

subsection \<open>Auto-select and escalation (lines 283 to 296)\<close>

text \<open>
  The numeric score of a candidate. It is read only where no candidate carries
  \<^verbatim>\<open>'N/A'\<close>, the case in which Python raises.
\<close>

fun score_val :: "score \<Rightarrow> int" where
  "score_val (Score n) = n"
| "score_val NA = undefined"

definition cscore :: "candidate \<Rightarrow> int" where
  "cscore c = score_val (c_score c)"

text \<open>
  \<^verbatim>\<open>candidates.sort(key=lambda x: x['score'], reverse=True)\<close> is a stable sort in
  descending order: candidates of equal score keep their order. \<^const>\<open>sort_key\<close> is a
  stable ascending sort, here on the negated score.
\<close>

definition sort_by_score :: "candidate list \<Rightarrow> candidate list" where
  "sort_by_score candidates = sort_key (\<lambda>c. - cscore c) candidates"

definition auto_select :: "candidate list \<Rightarrow> string \<Rightarrow> string \<Rightarrow> filter_result" where
  "auto_select candidates artist title =
     (if list_ex (\<lambda>c. c_score c = NA) candidates then RTypeError
      else let candidates = sort_by_score candidates
           in if length candidates = 1 \<and> cscore (candidates ! 0) \<ge> 8
              then return_id (c_id (candidates ! 0))
              else if length candidates > 1
                      \<and> cscore (candidates ! 0) \<ge> cscore (candidates ! 1) + 7
                      \<and> cscore (candidates ! 0) \<ge> 12
              then return_id (c_id (candidates ! 0))
              else RManual Select candidates artist title)"

definition worker_filter_and_select ::
  "video list \<Rightarrow> string \<Rightarrow> string \<Rightarrow> bool \<Rightarrow> bool \<Rightarrow> filter_result" where
  "worker_filter_and_select videos artist title is_override no_trust_mode =
     (if videos = [] then RNone
      else let artist_lower = lower artist; title_lower = lower title
           in if no_trust_mode
              then (let candidates = no_trust_loop videos []
                    in if candidates = [] then RNone
                       else RManual Select candidates artist title)
              else (case (if \<not> is_override then priority_check artist_lower videos else None) of
                      Some video_id \<Rightarrow> RId video_id
                    | None \<Rightarrow>
                        (let candidates = scoring_loop is_override artist_lower title_lower videos []
                         in if candidates = [] then RNone
                            else if \<not> is_override then auto_select candidates artist title
                            else RManual Override candidates artist title)))"

section \<open>File name sanitization (lines 107 to 116)\<close>

text \<open>The characters of the class \<^verbatim>\<open>[\\/*?:"<>|]\<close>.\<close>

definition illegal_chars :: "char list" where
  "illegal_chars =
     [CHR 0x5C, CHR ''/'', CHR ''*'', CHR ''?'', CHR '':'', CHR 0x22, CHR ''<'', CHR ''>'',
      CHR ''|'']"

text \<open>\<^verbatim>\<open>re.sub(r'\.+', '.', name)\<close>: every run of dots becomes one dot.\<close>

fun collapse_dots :: "string \<Rightarrow> string" where
  "collapse_dots (a # b # s) =
     (if a = CHR ''.'' \<and> b = CHR ''.'' then collapse_dots (b # s)
      else a # collapse_dots (b # s))"
| "collapse_dots s = s"

text \<open>
  \<^verbatim>\<open>str.strip()\<close> removes white space at both ends; the white space among the code points
  0 to 255 is 9 to 13, 28 to 32, 133 and 160. \<^verbatim>\<open>str.strip(chars)\<close> removes the given
  characters.
\<close>

definition is_space :: "char \<Rightarrow> bool" where
  "is_space c = ((of_char c :: nat) \<in> set [9, 10, 11, 12, 13, 28, 29, 30, 31, 32, 133, 160])"

definition strip_where :: "(char \<Rightarrow> bool) \<Rightarrow> string \<Rightarrow> string" where
  "strip_where p s = rev (dropWhile p (rev (dropWhile p s)))"

text \<open>
  \<^verbatim>\<open>os.path.splitext\<close> as the Python library defines it: the extension starts at the last
  dot, when that dot stands after the last separator and after a character of the file
  name that is not a dot. \<open>rfind\<close> is \<^verbatim>\<open>str.rfind\<close>, with -1 for no occurrence.
\<close>

definition rfind :: "char \<Rightarrow> string \<Rightarrow> int" where
  "rfind c s =
     (case filter (\<lambda>i. s ! i = c) (rev [0..<length s]) of
        [] \<Rightarrow> - 1
      | i # _ \<Rightarrow> int i)"

definition splitext :: "string \<Rightarrow> string \<times> string" where
  "splitext p =
     (let sepIndex = rfind (CHR ''/'') p; dotIndex = rfind (CHR ''.'') p
      in if dotIndex > sepIndex
            \<and> list_ex (\<lambda>i. p ! i \<noteq> CHR ''.'') [nat (sepIndex + 1)..<nat dotIndex]
         then (take (nat dotIndex) p, drop (nat dotIndex) p)
         else (p, []))"

text \<open>The slice \<^verbatim>\<open>s[:k]\<close>; a negative \<open>k\<close> counts from the end.\<close>

definition slice_to :: "string \<Rightarrow> int \<Rightarrow> string" where
  "slice_to s k = (if k \<ge> 0 then take (nat k) s else take (nat (int (length s) + k)) s)"

definition MAX_FILENAME_LEN :: int where
  "MAX_FILENAME_LEN = 200"

definition worker_sanitize_filename :: "string \<Rightarrow> string" where
  "worker_sanitize_filename name =
     (if name = [] then ''Untitled''
      else let name = filter (\<lambda>c. c \<notin> set illegal_chars) name;
               name = collapse_dots name;
               name = strip_where (\<lambda>c. c \<in> set ''.- '') (strip_where is_space name);
               name = (if name = [] \<or> name = ''.'' then ''Untitled'' else name)
           in if int (length name) > MAX_FILENAME_LEN
              then (case splitext name of
                      (base, ext) \<Rightarrow>
                        slice_to base (MAX_FILENAME_LEN - int (length ext)) @ ext)
              else name)"

text \<open>The name after lines 109 to 111, before the truncation.\<close>

definition cleaned :: "string \<Rightarrow> string" where
  "cleaned name =
     (let name = filter (\<lambda>c. c \<notin> set illegal_chars) name;
          name = collapse_dots name;
          name = strip_where (\<lambda>c. c \<in> set ''.- '') (strip_where is_space name)
      in if name = [] \<or> name = ''.'' then ''Untitled'' else name)"

section \<open>The search call (lines 157 to 176)\<close>

text \<open>
  What running the search tool can do: the tool is not found, the wait of 60 seconds
  expires, another exception is raised, or the process exits with a return code and its
  output, one entry per line (an empty line, a line that is not JSON, or a record). The
  text of the error output only selects the log message.
\<close>

datatype line = EmptyLine | Malformed | Json video

datatype proc_outcome =
    FileNotFound
  | TimeoutExpired
  | OtherException
  | Exited int "line list"

datatype status =
    STATUS_QUEUED | STATUS_PROCESSING | STATUS_SEARCHING | STATUS_FILTERING
  | STATUS_DOWNLOADING | STATUS_COMPLETE | STATUS_FAILED_META | STATUS_FAILED_SEARCH
  | STATUS_FAILED_FILTER | STATUS_FAILED_DOWNLOAD | STATUS_SKIPPED_MANUAL | STATUS_EXISTS
  | STATUS_ERROR | STATUS_FAILED_ALL | STATUS_NEEDS_REVIEW | STATUS_REVIEWING

text \<open>The messages the worker puts into the queue to the foreground.\<close>

datatype gui_msg =
    StatusUpdate status
  | AskManualSearch
  | AskManualSelect "candidate list" bool
  | ReviewNeeded reason "candidate list"
  | StoreMergeInfo
  | ErrorMessage

fun parse_lines :: "line list \<Rightarrow> video list" where
  "parse_lines [] = []"
| "parse_lines (Json v # ls) = v # parse_lines ls"
| "parse_lines (_ # ls) = parse_lines ls"

text \<open>
  The result is \<^verbatim>\<open>None\<close> (here \<open>None\<close>) or a list of records, with the messages put
  into the queue. The second argument says whether the stop event is set when the wait
  for the process returns.
\<close>

definition worker_search_videos :: "proc_outcome \<Rightarrow> bool \<Rightarrow> gui_msg list \<times> video list option" where
  "worker_search_videos outcome stop_is_set =
     (case outcome of
        FileNotFound \<Rightarrow> ([ErrorMessage], None)
      | TimeoutExpired \<Rightarrow> ([], Some [])
      | OtherException \<Rightarrow> ([], None)
      | Exited returncode stdout \<Rightarrow>
          (if stop_is_set then ([], Some [])
           else if returncode \<noteq> 0 then ([], None)
           else ([], Some (parse_lines stdout))))"

section \<open>The worker's steps for one file (lines 454 to 598)\<close>

text \<open>
  The local variables of one iteration of the worker's loop, the stop event and the
  messages put into the queue so far.
\<close>

record wstate =
  selected_video_id :: "string option"
  final_status :: "status option"
  search_error :: bool
  needs_manual_action :: bool
  action_reason :: "reason option"
  action_candidates :: "candidate list"
  videos_found_at_all :: bool
  stop_event :: bool
  gui_queue :: "gui_msg list"

definition initial_wstate :: wstate where
  "initial_wstate =
     \<lparr> selected_video_id = None, final_status = None, search_error = False,
       needs_manual_action = False, action_reason = None, action_candidates = [],
       videos_found_at_all = False, stop_event = False, gui_queue = [] \<rparr>"

definition put :: "gui_msg \<Rightarrow> wstate \<Rightarrow> wstate" where
  "put m s = s\<lparr>gui_queue := gui_queue s @ [m]\<rparr>"

definition put_all :: "gui_msg list \<Rightarrow> wstate \<Rightarrow> wstate" where
  "put_all ms s = s\<lparr>gui_queue := gui_queue s @ ms\<rparr>"

text \<open>
  How a step ends: the iteration goes on (\<open>Go\<close>), the loop over the files is left
  (\<^verbatim>\<open>break\<close>), the iteration is abandoned (\<^verbatim>\<open>continue\<close>), or an exception leaves the
  loop (\<open>Raise\<close>).
\<close>

datatype flow = Go wstate | Break wstate | Continue wstate | Raise wstate

fun and_then :: "flow \<Rightarrow> (wstate \<Rightarrow> flow) \<Rightarrow> flow" where
  "and_then (Go s) f = f s"
| "and_then (Break s) f = Break s"
| "and_then (Continue s) f = Continue s"
| "and_then (Raise s) f = Raise s"

text \<open>
  What the foreground and the external tools answer during one iteration. Every blocking
  call is made at most once per iteration, so there is one field per call; each answer
  comes with the state of the stop event when the call returns (the foreground sets the
  event, the worker only reads it between calls).
\<close>

datatype outdir = DirReady | NotADirectory | DirRaises

record env =
  e_official :: "proc_outcome \<times> bool"
  e_fallback :: "proc_outcome \<times> bool"
  e_unfiltered :: "proc_outcome \<times> bool"
  e_manual :: "proc_outcome \<times> bool"
  e_query_answer :: "string option \<times> bool"
  e_override_answer :: "string option \<times> bool"
  e_select_answer :: "string option \<times> bool"
  e_outdir :: outdir
  e_download :: "bool \<times> bool"

text \<open>A search call in the worker: the messages are queued, the stop event is read.\<close>

definition do_search :: "proc_outcome \<times> bool \<Rightarrow> wstate \<Rightarrow> video list option \<times> wstate" where
  "do_search reply s =
     (let s = s\<lparr>stop_event := stop_event s \<or> snd reply\<rparr>
      in case worker_search_videos (fst reply) (stop_event s) of
           (msgs, videos) \<Rightarrow> (videos, put_all msgs s))"

text \<open>\<^verbatim>\<open>manual_select_queue.get()\<close>.\<close>

definition queue_get :: "string option \<times> bool \<Rightarrow> wstate \<Rightarrow> string option \<times> wstate" where
  "queue_get reply s = (fst reply, s\<lparr>stop_event := stop_event s \<or> snd reply\<rparr>)"

definition set_manual :: "reason \<Rightarrow> candidate list \<Rightarrow> wstate \<Rightarrow> wstate" where
  "set_manual r cands s =
     s\<lparr>needs_manual_action := True, action_reason := Some r, action_candidates := cands\<rparr>"

text \<open>Attempt 1, lines 465 to 484.\<close>

definition official_search :: "bool \<Rightarrow> string \<Rightarrow> string \<Rightarrow> env \<Rightarrow> wstate \<Rightarrow> flow" where
  "official_search no_trust_mode artist title e s =
     (let s = put (StatusUpdate STATUS_SEARCHING) s
      in case do_search (e_official e) s of
           (videos, s) \<Rightarrow>
             if stop_event s then Break s
             else (case videos of
                     None \<Rightarrow> Go (s\<lparr>search_error := True\<rparr>)
                   | Some videos \<Rightarrow>
                       if videos \<noteq> []
                       then (let s = s\<lparr>videos_found_at_all := True\<rparr>
                             in if no_trust_mode
                                then (case worker_filter_and_select videos artist title True True of
                                        RManual r cands a t \<Rightarrow> Go (set_manual r cands s)
                                      | RTypeError \<Rightarrow> Raise s
                                      | _ \<Rightarrow> Go (s\<lparr>final_status := Some STATUS_FAILED_FILTER\<rparr>))
                                else (let s = put (StatusUpdate STATUS_FILTERING) s
                                      in case worker_filter_and_select videos artist title False False of
                                           RId video_id \<Rightarrow> Go (s\<lparr>selected_video_id := Some video_id\<rparr>)
                                         | RManual r cands a t \<Rightarrow> Go (set_manual r cands s)
                                         | RTypeError \<Rightarrow> Raise s
                                         | RNone \<Rightarrow> Go s))
                       else Go s))"

text \<open>The guard of attempts 2 and 3, lines 487 and 505.\<close>

definition may_search_again :: "bool \<Rightarrow> wstate \<Rightarrow> bool" where
  "may_search_again no_trust_mode s =
     (selected_video_id s = None \<and> \<not> needs_manual_action s \<and> \<not> search_error s
      \<and> \<not> stop_event s \<and> \<not> no_trust_mode)"

text \<open>Attempt 2, lines 487 to 501.\<close>

definition fallback_search :: "bool \<Rightarrow> string \<Rightarrow> string \<Rightarrow> env \<Rightarrow> wstate \<Rightarrow> flow" where
  "fallback_search no_trust_mode artist title e s =
     (if may_search_again no_trust_mode s
      then (let s = put (StatusUpdate STATUS_SEARCHING) s
            in case do_search (e_fallback e) s of
                 (videos, s) \<Rightarrow>
                   if stop_event s then Break s
                   else (case videos of
                           None \<Rightarrow> Go (s\<lparr>search_error := True\<rparr>)
                         | Some videos \<Rightarrow>
                             if videos \<noteq> []
                             then (let s = s\<lparr>videos_found_at_all := True\<rparr>;
                                       s = put (StatusUpdate STATUS_FILTERING) s
                                   in case worker_filter_and_select videos artist title False False of
                                        RId video_id \<Rightarrow> Go (s\<lparr>selected_video_id := Some video_id\<rparr>)
                                      | RManual r cands a t \<Rightarrow> Go (set_manual r cands s)
                                      | RTypeError \<Rightarrow> Raise s
                                      | RNone \<Rightarrow> Go s)
                             else Go s))
      else Go s)"

text \<open>
  The sentinels on the queue of answers. They are plain strings: a query or an id equal
  to one of them is read as the sentinel.
\<close>

definition is_stop_answer :: "string option \<Rightarrow> bool" where
  "is_stop_answer a = (a = Some ''stop_signal'' \<or> a = Some ''quit'')"

text \<open>
  The interactive manual search, lines 521 to 544. \<open>filename_query\<close> is the name of
  the audio file without directory and extension.
\<close>

definition manual_search :: "string \<Rightarrow> string \<Rightarrow> string \<Rightarrow> env \<Rightarrow> wstate \<Rightarrow> flow" where
  "manual_search artist title filename_query e s =
     (let s = put AskManualSearch s
      in case queue_get (e_query_answer e) s of
           (manual_query_result, s) \<Rightarrow>
             if is_stop_answer manual_query_result then Break (s\<lparr>stop_event := True\<rparr>)
             else let manual_query =
                        (if manual_query_result = Some ''__FILENAME_SEARCH__''
                         then Some filename_query else manual_query_result)
                  in if truthy manual_query
                     then (let s = put (StatusUpdate STATUS_SEARCHING) s
                           in case do_search (e_manual e) s of
                                (videos_manual, s) \<Rightarrow>
                                  if stop_event s then Break s
                                  else (case videos_manual of
                                          None \<Rightarrow> Go (s\<lparr>final_status := Some STATUS_ERROR\<rparr>)
                                        | Some videos_manual \<Rightarrow>
                                            if videos_manual \<noteq> []
                                            then (let s = put (StatusUpdate STATUS_FILTERING) s
                                                  in case worker_filter_and_select videos_manual artist title True False of
                                                       RManual r cands a t \<Rightarrow>
                                                         (let s = put (AskManualSelect cands False) s
                                                          in case queue_get (e_override_answer e) s of
                                                               (answer, s) \<Rightarrow>
                                                                 let s = s\<lparr>selected_video_id := answer\<rparr>
                                                                 in if is_stop_answer answer
                                                                    then Break (s\<lparr>stop_event := True\<rparr>)
                                                                    else Go s)
                                                     | RTypeError \<Rightarrow> Raise s
                                                     | _ \<Rightarrow> Go (s\<lparr>final_status := Some STATUS_FAILED_FILTER\<rparr>))
                                            else Go (s\<lparr>final_status := Some STATUS_FAILED_SEARCH\<rparr>)))
                     else Go (s\<lparr>final_status := Some STATUS_SKIPPED_MANUAL\<rparr>))"

text \<open>Attempt 3, lines 505 to 548.\<close>

definition unfiltered_or_manual ::
  "bool \<Rightarrow> bool \<Rightarrow> string \<Rightarrow> string \<Rightarrow> string \<Rightarrow> env \<Rightarrow> wstate \<Rightarrow> flow" where
  "unfiltered_or_manual no_trust_mode interactive_mode artist title filename_query e s =
     (if may_search_again no_trust_mode s
      then (if videos_found_at_all s
            then (case do_search (e_unfiltered e) s of
                    (videos_unfiltered, s) \<Rightarrow>
                      if stop_event s then Break s
                      else (case videos_unfiltered of
                              None \<Rightarrow> Go (s\<lparr>search_error := True\<rparr>)
                            | Some videos_unfiltered \<Rightarrow>
                                if videos_unfiltered \<noteq> []
                                then (case worker_filter_and_select videos_unfiltered artist title True False of
                                        RManual r cands a t \<Rightarrow> Go (set_manual r cands s)
                                      | RTypeError \<Rightarrow> Raise s
                                      | _ \<Rightarrow> Go (s\<lparr>final_status := Some STATUS_FAILED_FILTER\<rparr>))
                                else Go (s\<lparr>final_status := Some STATUS_FAILED_SEARCH\<rparr>)))
            else if interactive_mode then manual_search artist title filename_query e s
            else Go ((put (ReviewNeeded Search []) s)\<lparr>final_status := Some STATUS_NEEDS_REVIEW\<rparr>))
      else Go s)"

text \<open>The manual action, lines 551 to 563.\<close>

definition manual_action :: "bool \<Rightarrow> env \<Rightarrow> wstate \<Rightarrow> flow" where
  "manual_action interactive_mode e s =
     (if needs_manual_action s \<and> selected_video_id s = None \<and> final_status s = None
         \<and> \<not> stop_event s
      then (if interactive_mode
            then (let s = put (AskManualSelect (action_candidates s)
                                 (action_reason s = Some Override)) s
                  in case queue_get (e_select_answer e) s of
                       (answer, s) \<Rightarrow>
                         let s = s\<lparr>selected_video_id := answer\<rparr>
                         in if is_stop_answer answer then Break (s\<lparr>stop_event := True\<rparr>)
                            else Go s)
            else Go ((put (ReviewNeeded (the (action_reason s)) (action_candidates s)) s)
                       \<lparr>final_status := Some STATUS_NEEDS_REVIEW\<rparr>))
      else Go s)"

text \<open>
  The final outcome, lines 566 to 598. The download is the external tool's work: its
  answer is success or failure.
\<close>

definition set_final :: "status \<Rightarrow> wstate \<Rightarrow> wstate" where
  "set_final st s = put (StatusUpdate st) (s\<lparr>final_status := Some st\<rparr>)"

definition final_outcome :: "env \<Rightarrow> wstate \<Rightarrow> flow" where
  "final_outcome e s =
     (if stop_event s then Break s
      else if truthy (selected_video_id s)
      then (case e_outdir e of
              NotADirectory \<Rightarrow> Continue (set_final STATUS_ERROR s)
            | DirRaises \<Rightarrow> Continue (set_final STATUS_ERROR s)
            | DirReady \<Rightarrow>
                (let s = put (StatusUpdate STATUS_DOWNLOADING) s;
                     download_success = fst (e_download e);
                     s = s\<lparr>stop_event := stop_event s \<or> snd (e_download e)\<rparr>
                 in if stop_event s then Break s
                    else if download_success
                    then Go (put (StatusUpdate STATUS_COMPLETE)
                               (put StoreMergeInfo (s\<lparr>final_status := Some STATUS_COMPLETE\<rparr>)))
                    else Go (set_final STATUS_FAILED_DOWNLOAD s)))
      else if final_status s = None
      then Go (set_final (if search_error s then STATUS_ERROR else STATUS_FAILED_ALL) s)
      else Go s)"

text \<open>
  The state in which an iteration ends after a search that failed in state \<open>s\<close> with the
  messages \<open>msgs\<close>: the error flag is set and the status \<^verbatim>\<open>Error\<close> is reported.
\<close>

definition failed_search :: "gui_msg list \<Rightarrow> wstate \<Rightarrow> wstate" where
  "failed_search msgs s = set_final STATUS_ERROR ((put_all msgs s)\<lparr>search_error := True\<rparr>)"

text \<open>The three automated attempts, then the manual action and the final outcome.\<close>

definition first_two_attempts :: "bool \<Rightarrow> string \<Rightarrow> string \<Rightarrow> env \<Rightarrow> flow" where
  "first_two_attempts no_trust_mode artist title e =
     and_then (official_search no_trust_mode artist title e initial_wstate)
       (fallback_search no_trust_mode artist title e)"

definition automated_attempts ::
  "bool \<Rightarrow> bool \<Rightarrow> string \<Rightarrow> string \<Rightarrow> string \<Rightarrow> env \<Rightarrow> flow" where
  "automated_attempts no_trust_mode interactive_mode artist title filename_query e =
     and_then (first_two_attempts no_trust_mode artist title e)
       (unfiltered_or_manual no_trust_mode interactive_mode artist title filename_query e)"

definition process_item ::
  "bool \<Rightarrow> bool \<Rightarrow> string \<Rightarrow> string \<Rightarrow> string \<Rightarrow> env \<Rightarrow> flow" where
  "process_item no_trust_mode interactive_mode artist title filename_query e =
     and_then
       (and_then
          (automated_attempts no_trust_mode interactive_mode artist title filename_query e)
          (manual_action interactive_mode e))
       (final_outcome e)"

section \<open>The review queue of the application (lines 1285 to 1431 and 1574 to 1595)\<close>

record review_item =
  r_filepath :: string
  r_reason :: reason
  r_candidates :: "candidate list"
  r_artist :: string
  r_title :: string

text \<open>
  The part of the application's state the review works on. \<open>file_list_data\<close> maps the
  scanned files to their status; \<open>worker_alive\<close> says whether the processing thread
  exists and is alive.
\<close>

record app =
  review_list :: "review_item list"
  current_review_item :: "review_item option"
  is_reviewing :: bool
  file_list_data :: "string \<rightharpoonup> status"
  worker_alive :: bool
  stop_requested :: bool
  manual_select_queue :: "string list"

definition update_file_status :: "string \<Rightarrow> status \<Rightarrow> app \<Rightarrow> app" where
  "update_file_status filepath st a =
     (if filepath \<in> dom (file_list_data a)
      then a\<lparr>file_list_data := (file_list_data a)(filepath \<mapsto> st)\<rparr>
      else a)"

definition stop_processing :: "app \<Rightarrow> app" where
  "stop_processing a =
     (if worker_alive a
      then a\<lparr>stop_requested := True,
              manual_select_queue := manual_select_queue a @ [''stop_signal'']\<rparr>
      else if is_reviewing a
      then (let a = a\<lparr>is_reviewing := False\<rparr>;
                a = a\<lparr>review_list := []\<rparr>
            in case current_review_item a of
                 None \<Rightarrow> a
               | Some item \<Rightarrow>
                   if r_filepath item \<noteq> []
                   then (update_file_status (r_filepath item) STATUS_SKIPPED_MANUAL a)
                          \<lparr>current_review_item := None\<rparr>
                   else a)
      else a)"

text \<open>
  What happens while one review item is processed. The dialogs run the foreground's event
  loop, so a stop request can arrive while one is open (\<open>rv_stop\<close>). The answers are the
  selection dialog's result, the query dialog's result (\<open>None\<close> for cancel), the result
  of the manual search, the override dialog's result and the download's success;
  \<open>rv_raises\<close> says that an exception is raised inside the \<^verbatim>\<open>try\<close> block. The
  function \<open>stem\<close> gives the name of a file without directory and extension.
\<close>

record review_env =
  rv_stop :: bool
  rv_select :: "string option"
  rv_query :: "string option"
  rv_search :: "video list option"
  rv_override :: "string option"
  rv_download :: bool
  rv_raises :: bool

text \<open>The status the \<^verbatim>\<open>try\<close> block of \<^verbatim>\<open>process_single_review_item\<close> ends with.\<close>

definition review_final_status :: "review_item \<Rightarrow> (string \<Rightarrow> string) \<Rightarrow> review_env \<Rightarrow> status" where
  "review_final_status item stem rv =
     (if rv_raises rv then STATUS_ERROR
      else let final_status = STATUS_SKIPPED_MANUAL;
               (selected_video_id, final_status) =
                 (if r_reason item = Select \<or> r_reason item = Override
                  then (rv_select rv, final_status)
                  else let manual_query =
                             (case rv_query rv of
                                None \<Rightarrow> None
                              | Some q \<Rightarrow>
                                  (let q = strip_where is_space q
                                   in if q \<noteq> [] then Some q else Some (stem (r_filepath item))))
                       in if truthy manual_query
                          then (case rv_search rv of
                                  None \<Rightarrow> (None, STATUS_FAILED_SEARCH)
                                | Some videos_manual \<Rightarrow>
                                    if videos_manual \<noteq> [] then (rv_override rv, final_status)
                                    else (None, STATUS_FAILED_SEARCH))
                          else (None, final_status))
           in if truthy selected_video_id
              then (if rv_download rv then STATUS_COMPLETE else STATUS_FAILED_DOWNLOAD)
              else final_status)"

definition process_single_review_item ::
  "(string \<Rightarrow> string) \<Rightarrow> review_env \<Rightarrow> review_item \<Rightarrow> app \<Rightarrow> app" where
  "process_single_review_item stem rv review_item a =
     (let a = a\<lparr>current_review_item := Some review_item\<rparr>;
          a = update_file_status (r_filepath review_item) STATUS_REVIEWING a;
          a = (if rv_stop rv then stop_processing a else a);
          final_status = review_final_status review_item stem rv;
          a = update_file_status (r_filepath review_item) final_status a
      in a\<lparr>current_review_item := None\<rparr>)"

definition start_review_phase :: "app \<Rightarrow> app" where
  "start_review_phase a =
     (if is_reviewing a then a
      else if review_list a = [] then a
      else a\<lparr>is_reviewing := True\<rparr>)"

text \<open>
  \<^verbatim>\<open>_process_next_review_item\<close>: one scheduled call. The next call is scheduled only
  while \<open>is_reviewing\<close> holds.
\<close>

definition process_next_review_item :: "(string \<Rightarrow> string) \<Rightarrow> review_env \<Rightarrow> app \<Rightarrow> app" where
  "process_next_review_item stem rv a =
     (if \<not> is_reviewing a then a
      else case review_list a of
             [] \<Rightarrow> a\<lparr>is_reviewing := False\<rparr>
           | review_item # rest \<Rightarrow>
               process_single_review_item stem rv review_item (a\<lparr>review_list := rest\<rparr>))"

text \<open>The scheduled calls of one review phase, one per answer record.\<close>

fun review_steps :: "(string \<Rightarrow> string) \<Rightarrow> review_env list \<Rightarrow> app \<Rightarrow> app" where
  "review_steps stem [] a = a"
| "review_steps stem (rv # rvs) a = review_steps stem rvs (process_next_review_item stem rv a)"

section \<open>The rules as the specification words them\<close>

subsection \<open>The official-priority rule\<close>

text \<open>
  The three conditions of the priority pass: a positive phrase in the title, an official
  channel signal, and no negative keyword in the title other than \<^verbatim>\<open>audio only\<close> and
  \<^verbatim>\<open>visualizer\<close>; all on lowered text. \<open>claimed_channel_signal\<close> reads the second
  condition with both words looked for in the channel name and in the uploader id;
  \<open>channel_signal\<close> looks for \<^verbatim>\<open>official\<close> in the channel name only.
\<close>

definition claimed_channel_signal :: "string \<Rightarrow> video \<Rightarrow> bool" where
  "claimed_channel_signal artist v =
     (lower (channel v) = lower artist
      \<or> str_in ''official'' (lower (channel v)) \<or> str_in ''vevo'' (lower (channel v))
      \<or> str_in ''official'' (lower (str_or_empty (v_uploader_id v)))
      \<or> str_in ''vevo'' (lower (str_or_empty (v_uploader_id v))))"

definition channel_signal :: "string \<Rightarrow> video \<Rightarrow> bool" where
  "channel_signal artist v =
     (lower (channel v) = lower artist
      \<or> str_in ''official'' (lower (channel v)) \<or> str_in ''vevo'' (lower (channel v))
      \<or> str_in ''vevo'' (lower (str_or_empty (v_uploader_id v))))"

definition title_positive :: "video \<Rightarrow> bool" where
  "title_positive v =
     (str_in ''official music video'' (lower (vid_title v))
      \<or> str_in ''official video'' (lower (vid_title v)))"

definition title_disqualified :: "video \<Rightarrow> bool" where
  "title_disqualified v =
     list_ex (\<lambda>k. k \<noteq> ''audio only'' \<and> k \<noteq> ''visualizer'' \<and> str_in k (lower (vid_title v)))
       negative_keywords"

definition claimed_priority_rule :: "string \<Rightarrow> video \<Rightarrow> bool" where
  "claimed_priority_rule artist v =
     (title_positive v
      \<and> (claimed_channel_signal artist v \<or> v_channel_is_verified v = Some True)
      \<and> \<not> title_disqualified v)"

definition priority_rule :: "string \<Rightarrow> video \<Rightarrow> bool" where
  "priority_rule artist v =
     (title_positive v
      \<and> (channel_signal artist v \<or> v_channel_is_verified v = Some True)
      \<and> \<not> title_disqualified v)"

text \<open>A candidate can be selected when it has an id that is not empty.\<close>

definition selectable :: "video \<Rightarrow> bool" where
  "selectable v = (case v_id v of None \<Rightarrow> False | Some i \<Rightarrow> i \<noteq> [])"

subsection \<open>The scoring formula\<close>

text \<open>
  The score as a sum of independent terms, one per rule of the specification, and the
  flag that marks a candidate negative.
\<close>

definition title_negative :: "video \<Rightarrow> bool" where
  "title_negative v = list_ex (\<lambda>k. str_in k (lower (vid_title v))) negative_keywords"

definition description_flagged :: "video \<Rightarrow> bool" where
  "description_flagged v =
     list_ex (\<lambda>k. str_in k (lower (str_or_empty (v_description v)))) description_keywords"

definition title_penalty :: "video \<Rightarrow> int" where
  "title_penalty v = (if title_negative v then (if title_positive v then - 5 else - 20) else 0)"

definition description_penalty :: "video \<Rightarrow> int" where
  "description_penalty v = (if \<not> title_negative v \<and> description_flagged v then - 5 else 0)"

definition positive_bonus :: "video \<Rightarrow> int" where
  "positive_bonus v = (if title_positive v then 10 else 0)"

definition channel_term :: "bool \<Rightarrow> string \<Rightarrow> video \<Rightarrow> int" where
  "channel_term signal artist v =
     (if signal then 8
      else if str_in (lower artist) (lower (channel v)) then 5
      else if str_in ''topic'' (lower (channel v))
              \<or> str_in ''various artists'' (lower (channel v))
      then - 5 else 0)"

definition match_term :: "string \<Rightarrow> string \<Rightarrow> video \<Rightarrow> int" where
  "match_term artist title v =
     (if str_in (lower artist) (lower (vid_title v)) \<and> str_in (lower title) (lower (vid_title v))
      then 4
      else if str_in (lower title) (lower (vid_title v)) then 2 else 0)"

definition views_term :: "video \<Rightarrow> int" where
  "views_term v =
     (case v_view_count v of
        None \<Rightarrow> 0
      | Some n \<Rightarrow> (if n > 10000000 then 3 else if n > 1000000 then 2
                   else if n > 100000 then 1 else 0))"

definition verified_term :: "video \<Rightarrow> int" where
  "verified_term v = (if v_channel_is_verified v = Some True then 5 else 0)"

definition duration_term :: "rat option \<Rightarrow> int" where
  "duration_term d =
     (case d of
        None \<Rightarrow> 0
      | Some secs \<Rightarrow> (if secs < 90 then - 2 else 0) + (if secs > 600 then - 2 else 0))"

text \<open>
  \<open>claimed_score\<close> is the formula with the channel bonus of 8 for either word in the
  channel name or the uploader id and the duration penalties for every duration that is
  present. \<open>ref_score\<close> gives the bonus of 8 for \<^verbatim>\<open>official\<close> in the channel name only
  and reads a duration of 0 as an absent one.
\<close>

definition claimed_score :: "string \<Rightarrow> string \<Rightarrow> video \<Rightarrow> int" where
  "claimed_score artist title v =
     title_penalty v + description_penalty v + positive_bonus v
     + channel_term (claimed_channel_signal artist v) artist v + match_term artist title v
     + views_term v + verified_term v + duration_term (v_duration v)"

definition ref_score :: "string \<Rightarrow> string \<Rightarrow> video \<Rightarrow> int" where
  "ref_score artist title v =
     title_penalty v + description_penalty v + positive_bonus v
     + channel_term (channel_signal artist v) artist v + match_term artist title v
     + views_term v + verified_term v
     + duration_term (if v_duration v = Some 0 then None else v_duration v)"

definition flagged_negative :: "video \<Rightarrow> bool" where
  "flagged_negative v = (title_negative v \<or> description_flagged v)"

definition ref_retained :: "string \<Rightarrow> string \<Rightarrow> video \<Rightarrow> bool" where
  "ref_retained artist title v =
     (\<not> flagged_negative v
      \<and> (str_in (lower title) (lower (vid_title v)) \<or> ref_score artist title v > 2))"

text \<open>The auto-select condition on a ranked list of scores.\<close>

definition clear_winner :: "int list \<Rightarrow> bool" where
  "clear_winner scores =
     (case scores of
        [] \<Rightarrow> False
      | [best] \<Rightarrow> best \<ge> 8
      | best # second # _ \<Rightarrow> best \<ge> second + 7 \<and> best \<ge> 12)"

section \<open>Example inputs\<close>

definition blank_video :: video where
  "blank_video =
     \<lparr> v_id = None, v_title = None, v_channel = Absent, v_uploader = None,
       v_uploader_id = None, v_channel_is_verified = None, v_description = None,
       v_thumbnails = None, v_thumbnail = None, v_duration = None, v_webpage_url = Absent,
       v_view_count = None \<rparr>"

text \<open>A record whose thumbnail list has a url in its first entry and none in its last.\<close>

definition video_thumb_first :: video where
  "video_thumb_first =
     blank_video\<lparr> v_id := Some ''abc'', v_title := Some ''Song'',
       v_thumbnails := Some [\<lparr>url = Some ''http://t/1.jpg''\<rparr>, \<lparr>url = None\<rparr>] \<rparr>"

definition video_plain :: video where
  "video_plain = blank_video\<lparr> v_id := Some ''xyz'', v_title := Some ''Song'' \<rparr>"

text \<open>Scores 12, 5 and 6 for the artist \<^verbatim>\<open>Artist\<close> and the title \<^verbatim>\<open>Song\<close>.\<close>

definition video_12 :: video where
  "video_12 =
     blank_video\<lparr> v_id := Some ''v12'', v_title := Some ''Song (Official Video)'',
       v_channel := Val ''Foo'' \<rparr>"

definition video_5 :: video where
  "video_5 =
     blank_video\<lparr> v_id := Some ''v5'', v_title := Some ''Song'', v_channel := Val ''Foo'',
       v_view_count := Some 20000000 \<rparr>"

definition video_6 :: video where
  "video_6 =
     blank_video\<lparr> v_id := Some ''v6'', v_title := Some ''Artist - Song'',
       v_channel := Val ''Foo'', v_view_count := Some 2000000 \<rparr>"

text \<open>Score 8 (the channel is the artist), without id.\<close>

definition video_8_no_id :: video where
  "video_8_no_id = blank_video\<lparr> v_title := Some ''Video one'', v_channel := Val ''Artist'' \<rparr>"

text \<open>Score 8 with an id, and score 7 (the artist is part of the channel name).\<close>

definition video_8 :: video where
  "video_8 = video_8_no_id\<lparr> v_id := Some ''v8'' \<rparr>"

definition video_7 :: video where
  "video_7 =
     blank_video\<lparr> v_id := Some ''v7'', v_title := Some ''Song'',
       v_channel := Val ''Artist Fans'' \<rparr>"

text \<open>
  An official title on a channel whose only signal is the word \<^verbatim>\<open>official\<close> in the
  uploader id, and an official title on a channel with \<^verbatim>\<open>vevo\<close> in its name.
\<close>

definition video_official_uploader :: video where
  "video_official_uploader =
     blank_video\<lparr> v_id := Some ''a1'', v_title := Some ''Song (Official Video)'',
       v_channel := Val ''Foo'', v_uploader_id := Some ''@FooOfficial'' \<rparr>"

definition video_vevo :: video where
  "video_vevo =
     blank_video\<lparr> v_id := Some ''b2'', v_title := Some ''Artist - Song (Official Music Video)'',
       v_channel := Val ''ArtistVEVO'' \<rparr>"

definition video_no_id_vevo :: video where
  "video_no_id_vevo =
     blank_video\<lparr> v_title := Some ''Song (Official Video)'', v_channel := Val ''SomeVEVO'' \<rparr>"

definition video_zero_duration :: video where
  "video_zero_duration =
     blank_video\<lparr> v_id := Some ''z0'', v_title := Some ''Song'', v_duration := Some 0 \<rparr>"

definition blank_env :: env where
  "blank_env =
     \<lparr> e_official = (Exited 0 [], False), e_fallback = (Exited 0 [], False),
       e_unfiltered = (Exited 0 [], False), e_manual = (Exited 0 [], False),
       e_query_answer = (None, False), e_override_answer = (None, False),
       e_select_answer = (None, False), e_outdir = DirReady, e_download = (True, False) \<rparr>"

text \<open>A result the filter rejects (a negative keyword in the title).\<close>

definition video_rejected :: video where
  "video_rejected =
     blank_video\<lparr> v_id := Some ''r1'', v_title := Some ''Song (Lyric Video)'',
       v_channel := Val ''Foo'' \<rparr>"

text \<open>
  Answers of the environment: the fallback search fails after an official search without
  results; the unfiltered search fails after two searches whose results the filter
  rejects; two results of scores 12 and 6 and the answer \<^verbatim>\<open>None\<close> to the selection.
\<close>

definition env_fallback_fails :: env where
  "env_fallback_fails = blank_env\<lparr> e_fallback := (Exited 1 [], False) \<rparr>"

definition env_unfiltered_fails :: env where
  "env_unfiltered_fails =
     blank_env\<lparr> e_official := (Exited 0 [Json video_rejected], False),
       e_fallback := (Exited 0 [Json video_rejected], False),
       e_unfiltered := (OtherException, False) \<rparr>"

definition env_skip :: env where
  "env_skip = blank_env\<lparr> e_official := (Exited 0 [Json video_12, Json video_6], False) \<rparr>"

definition blank_review_env :: review_env where
  "blank_review_env =
     \<lparr> rv_stop = False, rv_select = None, rv_query = None, rv_search = None,
       rv_override = None, rv_download = False, rv_raises = False \<rparr>"

definition review_entry :: "string \<Rightarrow> review_item" where
  "review_entry filepath =
     \<lparr> r_filepath = filepath, r_reason = Search, r_candidates = [], r_artist = ''Artist'',
       r_title = ''Song'' \<rparr>"

definition reviewing_app :: app where
  "reviewing_app =
     \<lparr> review_list = [review_entry ''b.mp3'', review_entry ''c.mp3''],
       current_review_item = Some (review_entry ''a.mp3''), is_reviewing = True,
       file_list_data =
         [''a.mp3'' \<mapsto> STATUS_REVIEWING, ''b.mp3'' \<mapsto> STATUS_NEEDS_REVIEW,
          ''c.mp3'' \<mapsto> STATUS_NEEDS_REVIEW],
       worker_alive = False, stop_requested = False, manual_select_queue = [] \<rparr>"

section \<open>The passes of the selector as maps and filters\<close>

lemma scoring_loop_acc:
  "scoring_loop ov alow tlow videos candidates = candidates @ scoring_loop ov alow tlow videos []"
proof (induction videos arbitrary: candidates)
  case Nil
  show ?case by simp
next
  case (Cons video videos)
  show ?case
    using Cons.IH [of "candidates @ [mk_candidate video (resolve_thumbnail video) NA]"]
      Cons.IH [of "[mk_candidate video (resolve_thumbnail video) NA]"]
      Cons.IH [of "candidates @ [mk_candidate video (resolve_thumbnail video)
                                  (Score (fst (score_video alow tlow video)))]"]
      Cons.IH [of "[mk_candidate video (resolve_thumbnail video)
                     (Score (fst (score_video alow tlow video)))]"]
      Cons.IH [of candidates]
    by (auto simp: Let_def split: prod.splits)
qed

lemma scoring_loop_override:
  "scoring_loop True alow tlow videos [] =
     map (\<lambda>v. mk_candidate v (resolve_thumbnail v) NA) videos"
proof (induction videos)
  case Nil
  show ?case by simp
next
  case (Cons video videos)
  then show ?case
    using scoring_loop_acc [of True alow tlow videos
        "[mk_candidate video (resolve_thumbnail video) NA]"]
    by (simp add: Let_def)
qed

lemma scoring_loop_scored:
  "scoring_loop False alow tlow videos [] =
     map (\<lambda>v. mk_candidate v (resolve_thumbnail v) (Score (fst (score_video alow tlow v))))
       (filter (retained alow tlow) videos)"
proof (induction videos)
  case Nil
  show ?case by simp
next
  case (Cons video videos)
  then show ?case
    using scoring_loop_acc [of False alow tlow videos
        "[mk_candidate video (resolve_thumbnail video)
            (Score (fst (score_video alow tlow video)))]"]
    by (auto simp: Let_def retained_def split: prod.splits)
qed

lemma scoring_loop_numeric:
  "\<not> list_ex (\<lambda>c. c_score c = NA) (scoring_loop False alow tlow videos [])"
  by (simp add: scoring_loop_scored list_ex_iff mk_candidate_def)

lemma no_trust_loop_acc:
  "no_trust_loop videos candidates = candidates @ no_trust_loop videos []"
proof (induction videos arbitrary: candidates)
  case Nil
  show ?case by simp
next
  case (Cons video videos)
  show ?case
  proof (cases "no_trust_thumbnail video")
    case None
    then show ?thesis by simp
  next
    case (Some tu)
    then show ?thesis
      using Cons.IH [of "candidates @ [mk_candidate video tu NA]"]
        Cons.IH [of "[mk_candidate video tu NA]"]
      by simp
  qed
qed

lemma no_trust_loop_scores:
  "c \<in> set (no_trust_loop videos []) \<Longrightarrow> c_score c = NA"
proof (induction videos arbitrary: c)
  case Nil
  then show ?case by simp
next
  case (Cons video videos)
  show ?case
  proof (cases "no_trust_thumbnail video")
    case None
    with Cons.prems show ?thesis by simp
  next
    case (Some tu)
    with Cons.prems have "c \<in> set (mk_candidate video tu NA # no_trust_loop videos [])"
      using no_trust_loop_acc [of videos "[mk_candidate video tu NA]"] by simp
    with Cons.IH show ?thesis by (auto simp: mk_candidate_def)
  qed
qed

section \<open>The score as a sum\<close>

lemma any_in_positive:
  "any_in positive_keywords s = (str_in ''official music video'' s \<or> str_in ''official video'' s)"
  by (simp add: any_in_def positive_keywords_def)

lemma description_nonempty:
  "(d \<noteq> [] \<and> any_in description_keywords d) = any_in description_keywords d"
  by (auto simp: any_in_def description_keywords_def startswith_def)

lemma if_add_both: "(if b then (s::int) + x else s + y) = s + (if b then x else y)"
  by simp

lemma if_add_left: "(if b then (s::int) + x else s) = s + (if b then x else 0)"
  by simp

lemma if_sub_left: "(if b then (s::int) - x else s) = s + (if b then - x else 0)"
  by simp

lemma case_add:
  "(case x of None \<Rightarrow> (s::int) | Some y \<Rightarrow> s + f y) = s + (case x of None \<Rightarrow> 0 | Some y \<Rightarrow> f y)"
  by (simp split: option.splits)

lemma case_prod_if:
  "(case (if c then p else q) of (a, b) \<Rightarrow> f a b) =
     (if c then (case p of (a, b) \<Rightarrow> f a b) else (case q of (a, b) \<Rightarrow> f a b))"
  by simp

lemma duration_part:
  "(case d of None \<Rightarrow> (s::int)
    | Some y \<Rightarrow> if y \<noteq> 0 then s + (if y < 90 then - 2 else 0) + (if 600 < y then - 2 else 0)
                else s)
   = s + duration_term (if d = Some 0 then None else d)"
  by (simp add: duration_term_def split: option.splits)

lemma views_part:
  "(case n of None \<Rightarrow> (0::int)
    | Some y \<Rightarrow> if y \<noteq> (0::int)
                then (if 10000000 < y then 3 else if 1000000 < y then 2
                      else if 100000 < y then 1 else 0)
                else 0)
   = (case n of None \<Rightarrow> 0
      | Some n \<Rightarrow> (if n > 10000000 then 3 else if n > 1000000 then 2
                   else if n > 100000 then 1 else 0))"
  by (simp split: option.splits)

lemma first_penalty: "- (if b then 5 else 20) = (if b then - 5 else - (20::int))"
  by simp

lemmas push_score = if_add_both if_add_left if_sub_left case_add case_prod_if prod.case

lemmas ref_defs = ref_score_def flagged_negative_def title_penalty_def
  description_penalty_def positive_bonus_def channel_term_def channel_signal_def
  match_term_def views_term_def verified_term_def title_negative_def
  description_flagged_def is_verified_def uploader_id_def any_in_def [symmetric]

lemma score_video_sum:
  "score_video (lower artist) (lower title) v =
     (ref_score artist title v, flagged_negative v, str_in (lower title) (lower (vid_title v)))"
proof -
  consider (neg) "title_negative v"
    | (desc) "\<not> title_negative v" "description_flagged v"
    | (clean) "\<not> title_negative v" "\<not> description_flagged v"
    by blast
  then show ?thesis
  proof cases
    case neg
    then show ?thesis
      apply (simp only: score_video_def Let_def push_score)
      apply (simp only: duration_part views_part description_nonempty)
      apply (simp add: ref_defs first_penalty any_in_positive [symmetric] title_positive_def
          split del: if_split)
      done
  next
    case desc
    then show ?thesis
      apply (simp only: score_video_def Let_def push_score)
      apply (simp only: duration_part views_part description_nonempty)
      apply (simp add: ref_defs first_penalty any_in_positive [symmetric] title_positive_def
          split del: if_split)
      done
  next
    case clean
    then show ?thesis
      apply (simp only: score_video_def Let_def push_score)
      apply (simp only: duration_part views_part description_nonempty)
      apply (simp add: ref_defs first_penalty any_in_positive [symmetric] title_positive_def
          split del: if_split)
      done
  qed
qed

lemma retained_ref: "retained (lower artist) (lower title) v = ref_retained artist title v"
  by (simp add: retained_def ref_retained_def score_video_sum)

text \<open>
  Claim C5, as amended. For every result of the scoring pass the score is the sum of the
  terms of the specification: the title penalty (-20, or -5 with a positive phrase), the
  description penalty (-5 when the title raised no flag), the positive phrase (+10), the
  channel term (+8 when the channel is the artist, or its name contains \<^verbatim>\<open>official\<close> or
  \<^verbatim>\<open>vevo\<close>, or the uploader id contains \<^verbatim>\<open>vevo\<close>; else +5 when the artist is part
  of the channel name; else -5 for \<^verbatim>\<open>topic\<close> or \<^verbatim>\<open>various artists\<close>), the title match
  (+4 or +2), the view tiers (+3, +2, +1), the verified flag (+5) and the duration
  penalties (-2 under 90 seconds, -2 over 600 seconds, for a duration that is present and
  not 0). A result is kept exactly when it is not flagged negative and its title contains
  the target title or its score exceeds 2; kept results keep their order. An override
  request keeps every result, with score \<^verbatim>\<open>'N/A'\<close>.
\<close>

theorem score_is_sum_of_terms:
  "score_video (lower artist) (lower title) v =
     (ref_score artist title v, flagged_negative v, str_in (lower title) (lower (vid_title v)))
   \<and> scoring_loop False (lower artist) (lower title) videos [] =
       map (\<lambda>v. mk_candidate v (resolve_thumbnail v) (Score (ref_score artist title v)))
         (filter (ref_retained artist title) videos)
   \<and> scoring_loop True (lower artist) (lower title) videos [] =
       map (\<lambda>v. mk_candidate v (resolve_thumbnail v) NA) videos"
proof -
  have "retained (lower artist) (lower title) = ref_retained artist title"
    by (rule ext) (rule retained_ref)
  then show ?thesis
    by (simp add: scoring_loop_scored scoring_loop_override score_video_sum)
qed

text \<open>
  The formula with \<^verbatim>\<open>official\<close> looked for in the uploader id as well, and with the
  duration penalty for a duration of 0, differs from the code: an uploader id
  \<^verbatim>\<open>@FooOfficial\<close> earns no channel bonus (12 instead of 20), and a duration of 0 earns
  no penalty (2 instead of 0).
\<close>

theorem claimed_score_counterexample:
  "claimed_score ''Artist'' ''Song'' video_official_uploader = 20
   \<and> fst (score_video (lower ''Artist'') (lower ''Song'') video_official_uploader) = 12
   \<and> claimed_score ''Artist'' ''Song'' video_zero_duration = 0
   \<and> fst (score_video (lower ''Artist'') (lower ''Song'') video_zero_duration) = 2"
  by code_simp

section \<open>Override requests\<close>

text \<open>
  A call of the selector with \<^verbatim>\<open>is_override=True\<close> never returns a video id, whatever
  the no-trust flag. With the no-trust flag off it returns \<^verbatim>\<open>None\<close> exactly when the
  list of results is empty, and otherwise asks for a manual action with reason
  \<^verbatim>\<open>override\<close> and one candidate per result, in the order of the results, each with
  score \<^verbatim>\<open>'N/A'\<close>.
\<close>

theorem override_never_selects:
  "worker_filter_and_select videos artist title True no_trust_mode \<noteq> RId video_id
   \<and> (worker_filter_and_select videos artist title True False = RNone) = (videos = [])
   \<and> worker_filter_and_select videos artist title True False =
       (if videos = [] then RNone
        else RManual Override (map (\<lambda>v. mk_candidate v (resolve_thumbnail v) NA) videos)
               artist title)"
  by (simp add: worker_filter_and_select_def Let_def scoring_loop_override)

section \<open>No-trust mode\<close>

text \<open>
  Claim C1. In no-trust mode every result is to be kept, so a list that is not empty
  always leads to a manual selection among all of them. The loop of lines 201 to 214
  leaves the list of results at the first record whose thumbnail list has no url in its
  last entry and a url in its first: that record and all after it are dropped. For one
  such record the selector returns \<^verbatim>\<open>None\<close>; for a plain record, such a record and a
  plain record again it offers the first record only.
\<close>

theorem no_trust_break_drops_candidates:
  "worker_filter_and_select [video_thumb_first] ''Artist'' ''Song'' False True = RNone
   \<and> worker_filter_and_select [video_plain, video_thumb_first, video_plain]
        ''Artist'' ''Song'' False True
      = RManual Select [mk_candidate video_plain None NA] ''Artist'' ''Song''"
  by code_simp

lemma assign_all_last: "ts \<noteq> [] \<Longrightarrow> assign_all ts u = url (last ts)"
  by (induction ts arbitrary: u) auto

lemma no_trust_thumbnail_stops: "(no_trust_thumbnail v = None) = stops_no_trust_loop v"
  by (auto simp: no_trust_thumbnail_def stops_no_trust_loop_def Let_def assign_all_last last_rev
      split: option.splits)

lemma no_trust_loop_map:
  "\<forall>v \<in> set videos. \<not> stops_no_trust_loop v \<Longrightarrow>
   no_trust_loop videos [] = map (\<lambda>v. mk_candidate v (the (no_trust_thumbnail v)) NA) videos"
proof (induction videos)
  case Nil
  show ?case by simp
next
  case (Cons video videos)
  then obtain tu where tu: "no_trust_thumbnail video = Some tu"
    using no_trust_thumbnail_stops [of video] by auto
  with Cons show ?case
    using no_trust_loop_acc [of videos "[mk_candidate video tu NA]"]
    by simp
qed

text \<open>
  When no record stops the loop, no-trust mode asks for a manual selection among all the
  results, in their order, each with score \<^verbatim>\<open>'N/A'\<close>, whatever the override flag.
\<close>

theorem no_trust_keeps_all:
  assumes "videos \<noteq> []" and "\<forall>v \<in> set videos. \<not> stops_no_trust_loop v"
  shows "worker_filter_and_select videos artist title is_override True =
           RManual Select (map (\<lambda>v. mk_candidate v (the (no_trust_thumbnail v)) NA) videos)
             artist title"
  using assms by (simp add: worker_filter_and_select_def Let_def no_trust_loop_map)

theorem no_trust_keeps_all_witness:
  "worker_filter_and_select [video_12] ''Artist'' ''Song'' False True =
     RManual Select [mk_candidate video_12 None NA] ''Artist'' ''Song''"
proof -
  have a: "[video_12] \<noteq> []"
    by simp
  have b: "\<forall>v \<in> set [video_12]. \<not> stops_no_trust_loop v"
    by (simp add: stops_no_trust_loop_def video_12_def blank_video_def)
  have c: "the (no_trust_thumbnail video_12) = None"
    by (simp add: no_trust_thumbnail_def video_12_def blank_video_def)
  show ?thesis
    using no_trust_keeps_all [OF a b, of "''Artist''" "''Song''" False] c by simp
qed

text \<open>
  Claim C6. A call of the selector with \<^verbatim>\<open>is_override=True\<close> is to return \<^verbatim>\<open>None\<close>
  for the empty list only, and otherwise to ask for a manual action with all the results.
  The worker makes such a call with the no-trust flag on (line 473), and there the loop of
  lines 201 to 214 stops at a record whose thumbnail list has no url in its last entry and
  a url in its first. For one such record the call returns \<^verbatim>\<open>None\<close> for a list that is
  not empty; for a plain record, such a record and a plain record again it offers the
  first record only; and the worker ends the file whose official search found the one
  record with the status for no suitable video, without asking anybody.
\<close>

theorem override_no_trust_drops_candidates:
  "worker_filter_and_select [video_thumb_first] ''Artist'' ''Song'' True True = RNone
   \<and> worker_filter_and_select [video_plain, video_thumb_first, video_plain]
        ''Artist'' ''Song'' True True
      = RManual Select [mk_candidate video_plain None NA] ''Artist'' ''Song''
   \<and> process_item True True ''Artist'' ''Song'' ''file''
        (blank_env\<lparr>e_official := (Exited 0 [Json video_thumb_first], False)\<rparr>)
      = Go (initial_wstate\<lparr> final_status := Some STATUS_FAILED_FILTER,
              videos_found_at_all := True,
              gui_queue := [StatusUpdate STATUS_SEARCHING] \<rparr>)"
  by code_simp

section \<open>The priority pass\<close>

lemma is_official_channel_rule:
  "is_official_title v \<and> is_official_channel (lower artist) v \<and> \<not> has_negative v
   \<longleftrightarrow> priority_rule artist v"
  by (auto simp: is_official_title_def is_official_channel_def has_negative_def
      priority_rule_def title_positive_def channel_signal_def title_disqualified_def
      any_in_def positive_keywords_def uploader_id_def is_verified_def Let_def
      list_ex_iff)

lemma truthy_selectable: "truthy (v_id v) = selectable v"
  by (cases "v_id v") (simp_all add: selectable_def)

lemma priority_check_first:
  assumes "\<forall>u \<in> set before. \<not> (priority_rule artist u \<and> selectable u)"
    and "priority_rule artist v" and "selectable v"
  shows "priority_check (lower artist) (before @ v # rest) = v_id v"
  using assms
proof (induction before)
  case Nil
  then show ?case
    using is_official_channel_rule [of v artist] by (simp add: truthy_selectable)
next
  case (Cons u before)
  then show ?case
    using is_official_channel_rule [of u artist] by (auto simp: truthy_selectable)
qed

lemma priority_check_none:
  "\<forall>u \<in> set videos. \<not> (priority_rule artist u \<and> selectable u) \<Longrightarrow>
   priority_check (lower artist) videos = None"
proof (induction videos)
  case Nil
  then show ?case by simp
next
  case (Cons u videos)
  then show ?case
    using is_official_channel_rule [of u artist] by (auto simp: truthy_selectable)
qed

text \<open>
  Claim C4, as amended. With both flags off the selector returns the id of the first
  result, in the order given, that satisfies the three priority conditions and has an id
  that is not empty: a positive phrase in the lowered title; a channel equal to the
  artist's name when both are lowered, or \<^verbatim>\<open>official\<close> or \<^verbatim>\<open>vevo\<close> in the lowered
  channel name, or \<^verbatim>\<open>vevo\<close> in the lowered uploader id, or the verified flag; and no
  negative keyword in the lowered title other than \<^verbatim>\<open>audio only\<close> and
  \<^verbatim>\<open>visualizer\<close>. Results before it that satisfy the conditions without an id are
  passed over, and no score is computed.
\<close>

theorem priority_pass_selects_first:
  assumes "videos = before @ v # rest"
    and "\<forall>u \<in> set before. \<not> (priority_rule artist u \<and> selectable u)"
    and "priority_rule artist v"
    and "v_id v = Some i" and "i \<noteq> []"
  shows "worker_filter_and_select videos artist title False False = RId i"
proof -
  have "selectable v"
    using assms(4,5) by (simp add: selectable_def)
  with assms have "priority_check (lower artist) videos = Some i"
    using priority_check_first [of before artist v rest] by simp
  then show ?thesis
    using assms(1) by (simp add: worker_filter_and_select_def Let_def)
qed

theorem priority_pass_selects_first_witness:
  "worker_filter_and_select [video_no_id_vevo, video_vevo] ''Artist'' ''Song'' False False
     = RId ''b2''
   \<and> priority_rule ''Artist'' video_no_id_vevo \<and> \<not> selectable video_no_id_vevo"
proof -
  have a: "[video_no_id_vevo, video_vevo] = [video_no_id_vevo] @ video_vevo # []"
    by simp
  have b: "\<forall>u \<in> set [video_no_id_vevo]. \<not> (priority_rule ''Artist'' u \<and> selectable u)"
    by code_simp
  have c: "priority_rule ''Artist'' video_vevo"
    by code_simp
  have d: "v_id video_vevo = Some ''b2''"
    by code_simp
  have e: "''b2'' \<noteq> []"
    by simp
  have f: "priority_rule ''Artist'' video_no_id_vevo \<and> \<not> selectable video_no_id_vevo"
    by code_simp
  from priority_pass_selects_first [OF a b c d e, of "''Song''"] f show ?thesis
    by simp
qed

text \<open>
  A result whose only channel signal is \<^verbatim>\<open>official\<close> in the uploader id satisfies the
  conditions as the specification words them, and is not selected: the selector goes on
  to the next result.
\<close>

theorem claimed_priority_counterexample:
  "claimed_priority_rule ''Artist'' video_official_uploader
   \<and> v_id video_official_uploader = Some ''a1''
   \<and> worker_filter_and_select [video_official_uploader, video_vevo] ''Artist'' ''Song''
        False False = RId ''b2''"
  by code_simp

section \<open>Auto-select\<close>

lemma sort_by_score_sorted:
  "sorted_wrt (\<lambda>a b. cscore a \<ge> cscore b) (sort_by_score candidates)"
proof -
  have "sorted (map (\<lambda>c. - cscore c) (sort_by_score candidates))"
    unfolding sort_by_score_def by (rule sorted_sort_key)
  then show ?thesis
    by (simp add: sorted_wrt_map)
qed

lemma sort_by_score_stable:
  "filter (\<lambda>c. cscore c = k) (sort_by_score candidates) = filter (\<lambda>c. cscore c = k) candidates"
  using sort_key_stable [of "\<lambda>c. - cscore c" "- k" candidates]
  by (simp add: sort_by_score_def)

lemma auto_select_ranked:
  assumes "\<not> list_ex (\<lambda>c. c_score c = NA) candidates"
    and "ranked = sort_by_score candidates"
    and "ranked \<noteq> []"
  shows "auto_select candidates artist title =
           (if clear_winner (map cscore ranked) then return_id (c_id (hd ranked))
            else RManual Select ranked artist title)"
proof (cases ranked)
  case Nil
  with assms(3) show ?thesis by simp
next
  case (Cons c1 rest)
  note c1 = Cons
  show ?thesis
  proof (cases rest)
    case Nil
    with c1 assms(1,2) show ?thesis
      by (simp add: auto_select_def Let_def clear_winner_def)
  next
    case (Cons c2 rest')
    with c1 assms(1,2) show ?thesis
      by (simp add: auto_select_def Let_def clear_winner_def)
  qed
qed

text \<open>
  The auto-select rule. When the priority pass selects nothing, the kept candidates are
  ranked by a stable sort in descending order of score. The selector returns the id entry
  of the first of the ranking exactly when the ranking is a single candidate with score at
  least 8, or has several candidates and its first score is at least the second score
  plus 7 and at least 12; otherwise it asks for a manual selection among the ranked
  candidates. The witness has scores 12 and 5 (selected), 12 and 6 (manual selection), a
  single 8 (selected) and a single 7 (manual selection).
\<close>

theorem auto_select_thresholds:
  assumes "priority_check (lower artist) videos = None"
    and "retained_candidates = scoring_loop False (lower artist) (lower title) videos []"
    and "ranked = sort_by_score retained_candidates"
    and "ranked \<noteq> []"
  shows "worker_filter_and_select videos artist title False False =
           (if clear_winner (map cscore ranked) then return_id (c_id (hd ranked))
            else RManual Select ranked artist title)
         \<and> sorted_wrt (\<lambda>a b. cscore a \<ge> cscore b) ranked
         \<and> filter (\<lambda>c. cscore c = k) ranked = filter (\<lambda>c. cscore c = k) retained_candidates"
proof -
  have numeric: "\<not> list_ex (\<lambda>c. c_score c = NA) retained_candidates"
    unfolding assms(2) by (rule scoring_loop_numeric)
  have nonempty: "retained_candidates \<noteq> []"
    using assms(3,4) by (auto simp: sort_by_score_def)
  then have "videos \<noteq> []"
    using assms(2) by auto
  then have "worker_filter_and_select videos artist title False False =
               auto_select retained_candidates artist title"
    using assms(1,2) nonempty by (simp add: worker_filter_and_select_def Let_def)
  also have "\<dots> = (if clear_winner (map cscore ranked) then return_id (c_id (hd ranked))
                    else RManual Select ranked artist title)"
    using numeric assms(3,4) by (rule auto_select_ranked)
  finally show ?thesis
    using assms(3) by (simp add: sort_by_score_sorted sort_by_score_stable)
qed

theorem auto_select_thresholds_witness:
  "worker_filter_and_select [video_5, video_12] ''Artist'' ''Song'' False False = RId ''v12''
   \<and> worker_filter_and_select [video_12, video_6] ''Artist'' ''Song'' False False =
       RManual Select [mk_candidate video_12 None (Score 12), mk_candidate video_6 None (Score 6)]
         ''Artist'' ''Song''
   \<and> worker_filter_and_select [video_8] ''Artist'' ''Song'' False False = RId ''v8''
   \<and> worker_filter_and_select [video_7] ''Artist'' ''Song'' False False =
       RManual Select [mk_candidate video_7 None (Score 7)] ''Artist'' ''Song''"
proof -
  have p1: "priority_check (lower ''Artist'') [video_5, video_12] = None"
    and p2: "priority_check (lower ''Artist'') [video_12, video_6] = None"
    and p3: "priority_check (lower ''Artist'') [video_8] = None"
    and p4: "priority_check (lower ''Artist'') [video_7] = None"
    by code_simp+
  have r1: "[mk_candidate video_12 None (Score 12), mk_candidate video_5 None (Score 5)] =
      sort_by_score (scoring_loop False (lower ''Artist'') (lower ''Song'') [video_5, video_12] [])"
    and r2: "[mk_candidate video_12 None (Score 12), mk_candidate video_6 None (Score 6)] =
      sort_by_score (scoring_loop False (lower ''Artist'') (lower ''Song'') [video_12, video_6] [])"
    and r3: "[mk_candidate video_8 None (Score 8)] =
      sort_by_score (scoring_loop False (lower ''Artist'') (lower ''Song'') [video_8] [])"
    and r4: "[mk_candidate video_7 None (Score 7)] =
      sort_by_score (scoring_loop False (lower ''Artist'') (lower ''Song'') [video_7] [])"
    by code_simp+
  have i1: "c_id (hd [mk_candidate video_12 None (Score 12), mk_candidate video_5 None (Score 5)])
      = Some ''v12''"
    and i2: "c_id (hd [mk_candidate video_12 None (Score 12), mk_candidate video_6 None (Score 6)])
      = Some ''v12''"
    and i3: "c_id (hd [mk_candidate video_8 None (Score 8)]) = Some ''v8''"
    and i4: "c_id (hd [mk_candidate video_7 None (Score 7)]) = Some ''v7''"
    by code_simp+
  have w1: "clear_winner (map cscore [mk_candidate video_12 None (Score 12), mk_candidate video_5 None (Score 5)])"
    and w2: "\<not> clear_winner (map cscore [mk_candidate video_12 None (Score 12), mk_candidate video_6 None (Score 6)])"
    and w3: "clear_winner (map cscore [mk_candidate video_8 None (Score 8)])"
    and w4: "\<not> clear_winner (map cscore [mk_candidate video_7 None (Score 7)])"
    by (simp_all add: clear_winner_def cscore_def mk_candidate_def)
  show ?thesis
    using auto_select_thresholds [OF p1 refl r1] auto_select_thresholds [OF p2 refl r2]
      auto_select_thresholds [OF p3 refl r3] auto_select_thresholds [OF p4 refl r4]
      i1 i2 i3 i4 w1 w2 w3 w4
    by simp
qed

text \<open>
  Claim C3. In the scoring path a single kept candidate with score at least 8 is to be
  selected, and a candidate that is not selected is to be escalated. Lines 287 and 288
  return the id entry of the first of the ranking without the test for an id that the
  priority pass makes. For a single kept candidate with score 8 and without id the
  selector returns \<^verbatim>\<open>None\<close>, the value that stands for no suitable candidate: the
  candidate is neither selected nor offered for a manual selection. With the id present
  the same record is selected.
\<close>

theorem lone_candidate_without_id_returns_none:
  "scoring_loop False (lower ''Artist'') (lower ''Song'') [video_8_no_id] []
     = [mk_candidate video_8_no_id None (Score 8)]
   \<and> worker_filter_and_select [video_8_no_id] ''Artist'' ''Song'' False False = RNone
   \<and> worker_filter_and_select [video_8] ''Artist'' ''Song'' False False = RId ''v8''"
  by code_simp

section \<open>Search failures\<close>

text \<open>A search fails when the call returns \<^verbatim>\<open>None\<close>.\<close>

lemma stop_event_unchanged: "\<not> stop_event s \<Longrightarrow> s\<lparr>stop_event := False\<rparr> = s"
  by (cases s) simp

lemma do_search_failed:
  assumes "snd (worker_search_videos oc False) = None" and "\<not> stop_event s"
  shows "do_search (oc, False) s = (None, put_all (fst (worker_search_videos oc False)) s)"
  using assms by (auto simp: do_search_def Let_def stop_event_unchanged split: prod.splits)

lemma stop_event_put_all [simp]: "stop_event (put_all ms s) = stop_event s"
  by (simp add: put_all_def)

lemma stop_event_put [simp]: "stop_event (put m s) = stop_event s"
  by (simp add: put_def)

lemma skipped_after_error:
  assumes "search_error s"
  shows "fallback_search nt artist title e s = Go s"
    and "unfiltered_or_manual nt im artist title fq e s = Go s"
  using assms
  by (simp_all add: fallback_search_def unfiltered_or_manual_def may_search_again_def)

lemma no_manual_action:
  "\<not> needs_manual_action s \<Longrightarrow> manual_action im e s = Go s"
  by (simp add: manual_action_def)

lemma final_outcome_error:
  assumes "\<not> stop_event s" and "selected_video_id s = None" and "final_status s = None"
    and "search_error s"
  shows "final_outcome e s = Go (set_final STATUS_ERROR s)"
  using assms by (simp add: final_outcome_def)

lemma and_then_Go: "and_then x f = Go s' \<Longrightarrow> \<exists>s. x = Go s \<and> f s = Go s'"
  by (cases x) simp_all

lemma official_search_final_status:
  assumes "official_search False artist title e s = Go s'"
  shows "final_status s' = final_status s"
  using assms
  by (auto simp: official_search_def do_search_def Let_def put_def put_all_def set_manual_def
      split: prod.splits option.splits filter_result.splits if_splits)

lemma fallback_search_final_status:
  assumes "fallback_search nt artist title e s = Go s'"
  shows "final_status s' = final_status s"
  using assms
  by (auto simp: fallback_search_def do_search_def Let_def put_def put_all_def set_manual_def
      split: prod.splits option.splits filter_result.splits if_splits)

lemma first_two_attempts_final_status:
  assumes "first_two_attempts False artist title e = Go s'"
  shows "final_status s' = None"
proof -
  from assms obtain s where "official_search False artist title e initial_wstate = Go s"
    and "fallback_search False artist title e s = Go s'"
    unfolding first_two_attempts_def by (blast dest: and_then_Go)
  then show ?thesis
    using official_search_final_status fallback_search_final_status
    by (simp add: initial_wstate_def)
qed

lemma official_search_fails:
  assumes "snd (worker_search_videos oc False) = None" and "e_official e = (oc, False)"
  shows "official_search nt artist title e initial_wstate =
           Go ((put_all (fst (worker_search_videos oc False))
                 (put (StatusUpdate STATUS_SEARCHING) initial_wstate))\<lparr>search_error := True\<rparr>)"
  using assms do_search_failed [OF assms(1), of "put (StatusUpdate STATUS_SEARCHING) initial_wstate"]
  by (simp add: official_search_def Let_def initial_wstate_def)

lemma fallback_search_fails:
  assumes "snd (worker_search_videos oc False) = None" and "e_fallback e = (oc, False)"
    and "may_search_again nt s"
  shows "fallback_search nt artist title e s =
           Go ((put_all (fst (worker_search_videos oc False))
                 (put (StatusUpdate STATUS_SEARCHING) s))\<lparr>search_error := True\<rparr>)"
  using assms do_search_failed [OF assms(1), of "put (StatusUpdate STATUS_SEARCHING) s"]
  by (simp add: fallback_search_def Let_def may_search_again_def)

lemma unfiltered_search_fails:
  assumes "snd (worker_search_videos oc False) = None" and "e_unfiltered e = (oc, False)"
    and "may_search_again nt s" and "videos_found_at_all s"
  shows "unfiltered_or_manual nt im artist title fq e s =
           Go ((put_all (fst (worker_search_videos oc False)) s)\<lparr>search_error := True\<rparr>)"
  using assms do_search_failed [OF assms(1), of s]
  by (simp add: unfiltered_or_manual_def Let_def may_search_again_def)

lemma finish_with_error:
  assumes "selected_video_id s = None" and "\<not> needs_manual_action s" and "final_status s = None"
    and "\<not> stop_event s"
  shows "and_then (manual_action im e (s\<lparr>search_error := True\<rparr>)) (final_outcome e)
           = Go (set_final STATUS_ERROR (s\<lparr>search_error := True\<rparr>))"
  using assms by (simp add: manual_action_def final_outcome_def)

text \<open>
  Claim C7. Let a search of the worker return \<^verbatim>\<open>None\<close> (the tool is missing, exits with
  an error or raises) while no stop is requested. Whether this happens in the official
  search, in the fallback search or in the unfiltered search, the iteration ends in the
  state \<open>failed_search\<close>: the error flag is set, no message of a later search or filter
  step is queued, the answers prepared for later calls play no part, and the final status
  is \<^verbatim>\<open>Error\<close>, reported to the foreground, not \<^verbatim>\<open>Exhausted\<close>.
\<close>

theorem search_failure_is_sticky:
  assumes "snd (worker_search_videos oc False) = None"
  shows
    "(e_official e = (oc, False) \<longrightarrow>
        process_item nt im artist title fq e =
          Go (failed_search (fst (worker_search_videos oc False))
                (put (StatusUpdate STATUS_SEARCHING) initial_wstate)))
     \<and> (official_search nt artist title e initial_wstate = Go s1 \<and> may_search_again nt s1
          \<and> e_fallback e = (oc, False) \<longrightarrow>
        process_item nt im artist title fq e =
          Go (failed_search (fst (worker_search_videos oc False))
                (put (StatusUpdate STATUS_SEARCHING) s1)))
     \<and> (first_two_attempts nt artist title e = Go s2 \<and> may_search_again nt s2
          \<and> videos_found_at_all s2 \<and> e_unfiltered e = (oc, False) \<longrightarrow>
        process_item nt im artist title fq e =
          Go (failed_search (fst (worker_search_videos oc False)) s2))
     \<and> final_status (failed_search msgs s) = Some STATUS_ERROR
     \<and> gui_queue (failed_search msgs s) = gui_queue s @ msgs @ [StatusUpdate STATUS_ERROR]"
proof (intro conjI impI)
  assume e: "e_official e = (oc, False)"
  let ?s = "(put_all (fst (worker_search_videos oc False))
               (put (StatusUpdate STATUS_SEARCHING) initial_wstate))\<lparr>search_error := True\<rparr>"
  have 1: "official_search nt artist title e initial_wstate = Go ?s"
    using assms e by (rule official_search_fails)
  have 2: "and_then (manual_action im e ?s) (final_outcome e) = Go (set_final STATUS_ERROR ?s)"
    by (rule finish_with_error) (simp_all add: initial_wstate_def put_def put_all_def)
  show "process_item nt im artist title fq e =
          Go (failed_search (fst (worker_search_videos oc False))
                (put (StatusUpdate STATUS_SEARCHING) initial_wstate))"
    using 1 2
    by (simp add: process_item_def automated_attempts_def first_two_attempts_def
        skipped_after_error failed_search_def)
next
  assume a: "official_search nt artist title e initial_wstate = Go s1 \<and> may_search_again nt s1
          \<and> e_fallback e = (oc, False)"
  let ?s = "(put_all (fst (worker_search_videos oc False))
               (put (StatusUpdate STATUS_SEARCHING) s1))\<lparr>search_error := True\<rparr>"
  have 1: "fallback_search nt artist title e s1 = Go ?s"
    using assms a by (simp add: fallback_search_fails)
  from a have "\<not> nt"
    by (simp add: may_search_again_def)
  with a have "official_search False artist title e initial_wstate = Go s1"
    by simp
  then have "final_status s1 = None"
    using official_search_final_status [of artist title e initial_wstate s1]
    by (simp add: initial_wstate_def)
  then have 2: "and_then (manual_action im e ?s) (final_outcome e) = Go (set_final STATUS_ERROR ?s)"
    using a by (intro finish_with_error) (simp_all add: may_search_again_def put_def put_all_def)
  show "process_item nt im artist title fq e =
          Go (failed_search (fst (worker_search_videos oc False))
                (put (StatusUpdate STATUS_SEARCHING) s1))"
    using a 1 2
    by (simp add: process_item_def automated_attempts_def first_two_attempts_def
        skipped_after_error failed_search_def)
next
  assume a: "first_two_attempts nt artist title e = Go s2 \<and> may_search_again nt s2
          \<and> videos_found_at_all s2 \<and> e_unfiltered e = (oc, False)"
  let ?s = "(put_all (fst (worker_search_videos oc False)) s2)\<lparr>search_error := True\<rparr>"
  have 1: "unfiltered_or_manual nt im artist title fq e s2 = Go ?s"
    using assms a by (simp add: unfiltered_search_fails)
  from a have "\<not> nt"
    by (simp add: may_search_again_def)
  with a have "first_two_attempts False artist title e = Go s2"
    by simp
  then have "final_status s2 = None"
    by (rule first_two_attempts_final_status)
  then have 2: "and_then (manual_action im e ?s) (final_outcome e) = Go (set_final STATUS_ERROR ?s)"
    using a by (intro finish_with_error) (simp_all add: may_search_again_def put_def put_all_def)
  show "process_item nt im artist title fq e =
          Go (failed_search (fst (worker_search_videos oc False)) s2)"
    using a 1 2
    by (simp add: process_item_def automated_attempts_def failed_search_def)
next
  show "final_status (failed_search msgs s) = Some STATUS_ERROR"
    by (simp add: failed_search_def set_final_def put_def)
next
  show "gui_queue (failed_search msgs s) = gui_queue s @ msgs @ [StatusUpdate STATUS_ERROR]"
    by (simp add: failed_search_def set_final_def put_def put_all_def)
qed

theorem search_failure_is_sticky_witness:
  "process_item False False ''Artist'' ''Song'' ''file''
     (blank_env\<lparr>e_official := (OtherException, False)\<rparr>)
     = Go (failed_search [] (put (StatusUpdate STATUS_SEARCHING) initial_wstate))
   \<and> process_item False False ''Artist'' ''Song'' ''file'' env_fallback_fails
     = Go (failed_search []
            (put (StatusUpdate STATUS_SEARCHING)
               (put (StatusUpdate STATUS_SEARCHING) initial_wstate)))
   \<and> process_item False False ''Artist'' ''Song'' ''file'' env_unfiltered_fails
     = Go (failed_search []
            (initial_wstate\<lparr> videos_found_at_all := True,
               gui_queue := [StatusUpdate STATUS_SEARCHING, StatusUpdate STATUS_FILTERING,
                             StatusUpdate STATUS_SEARCHING, StatusUpdate STATUS_FILTERING] \<rparr>))"
proof -
  have f1: "snd (worker_search_videos OtherException False) = None"
    and f2: "snd (worker_search_videos (Exited 1 []) False) = None"
    by (simp_all add: worker_search_videos_def)
  have m1: "fst (worker_search_videos OtherException False) = []"
    and m2: "fst (worker_search_videos (Exited 1 []) False) = []"
    by (simp_all add: worker_search_videos_def)
  have h1: "e_official (blank_env\<lparr>e_official := (OtherException, False)\<rparr>)
      = (OtherException, False)"
    by simp
  have h2: "official_search False ''Artist'' ''Song'' env_fallback_fails initial_wstate
        = Go (put (StatusUpdate STATUS_SEARCHING) initial_wstate)
      \<and> may_search_again False (put (StatusUpdate STATUS_SEARCHING) initial_wstate)
      \<and> e_fallback env_fallback_fails = (Exited 1 [], False)"
    by code_simp
  have h3: "first_two_attempts False ''Artist'' ''Song'' env_unfiltered_fails
        = Go (initial_wstate\<lparr> videos_found_at_all := True,
               gui_queue := [StatusUpdate STATUS_SEARCHING, StatusUpdate STATUS_FILTERING,
                             StatusUpdate STATUS_SEARCHING, StatusUpdate STATUS_FILTERING] \<rparr>)
      \<and> may_search_again False
          (initial_wstate\<lparr> videos_found_at_all := True,
               gui_queue := [StatusUpdate STATUS_SEARCHING, StatusUpdate STATUS_FILTERING,
                             StatusUpdate STATUS_SEARCHING, StatusUpdate STATUS_FILTERING] \<rparr>)
      \<and> videos_found_at_all
          (initial_wstate\<lparr> videos_found_at_all := True,
               gui_queue := [StatusUpdate STATUS_SEARCHING, StatusUpdate STATUS_FILTERING,
                             StatusUpdate STATUS_SEARCHING, StatusUpdate STATUS_FILTERING] \<rparr>)
      \<and> e_unfiltered env_unfiltered_fails = (OtherException, False)"
    by code_simp
  show ?thesis
    using search_failure_is_sticky [OF f1, where e = "blank_env\<lparr>e_official := (OtherException, False)\<rparr>"
        and nt = False and im = False and artist = "''Artist''" and title = "''Song''"
        and fq = "''file''"]
      search_failure_is_sticky [OF f2, where e = env_fallback_fails
        and nt = False and im = False and artist = "''Artist''" and title = "''Song''"
        and fq = "''file''" and ?s1.0 = "put (StatusUpdate STATUS_SEARCHING) initial_wstate"]
      search_failure_is_sticky [OF f1, where e = env_unfiltered_fails
        and nt = False and im = False and artist = "''Artist''" and title = "''Song''"
        and fq = "''file''"
        and ?s2.0 = "initial_wstate\<lparr> videos_found_at_all := True,
               gui_queue := [StatusUpdate STATUS_SEARCHING, StatusUpdate STATUS_FILTERING,
                             StatusUpdate STATUS_SEARCHING, StatusUpdate STATUS_FILTERING] \<rparr>"]
      h1 h2 h3 m1 m2
    by simp
qed

section \<open>A search that times out\<close>

lemma process_item_env_cong:
  assumes "do_search (e_official e1) = do_search (e_official e2)"
    and "do_search (e_fallback e1) = do_search (e_fallback e2)"
    and "do_search (e_unfiltered e1) = do_search (e_unfiltered e2)"
    and "do_search (e_manual e1) = do_search (e_manual e2)"
    and "e_query_answer e1 = e_query_answer e2"
    and "e_override_answer e1 = e_override_answer e2"
    and "e_select_answer e1 = e_select_answer e2"
    and "e_outdir e1 = e_outdir e2"
    and "e_download e1 = e_download e2"
  shows "process_item nt im artist title fq e1 = process_item nt im artist title fq e2"
proof -
  have "official_search nt artist title e1 = official_search nt artist title e2"
    by (rule ext) (simp only: official_search_def assms)
  moreover have "fallback_search nt artist title e1 = fallback_search nt artist title e2"
    by (rule ext) (simp only: fallback_search_def assms)
  moreover have "manual_search artist title fq e1 = manual_search artist title fq e2"
    by (rule ext) (simp only: manual_search_def assms)
  then have "unfiltered_or_manual nt im artist title fq e1
      = unfiltered_or_manual nt im artist title fq e2"
    by - (rule ext, simp only: unfiltered_or_manual_def assms)
  moreover have "manual_action im e1 = manual_action im e2"
    by (rule ext) (simp only: manual_action_def assms)
  moreover have "final_outcome e1 = final_outcome e2"
    by (rule ext) (simp only: final_outcome_def assms)
  ultimately show ?thesis
    by (simp only: process_item_def automated_attempts_def first_two_attempts_def)
qed

lemma do_search_timeout: "do_search (TimeoutExpired, st) = do_search (Exited 0 [], st)"
  by (rule ext) (simp add: do_search_def worker_search_videos_def Let_def)

text \<open>
  Claim C8, as amended. A search that exceeds its time limit returns the empty list, the
  value of a search that succeeds without results, and queues no message. At each of the
  four places where the worker searches, an iteration in which the search times out ends
  as the iteration in which that search finds nothing: the time-out sets no error flag
  and the control flow is the one of zero results.
\<close>

theorem timeout_is_zero_results:
  "worker_search_videos TimeoutExpired stop_is_set = ([], Some [])
   \<and> worker_search_videos (Exited 0 []) stop_is_set = ([], Some [])
   \<and> process_item nt im artist title fq (e\<lparr>e_official := (TimeoutExpired, st)\<rparr>)
       = process_item nt im artist title fq (e\<lparr>e_official := (Exited 0 [], st)\<rparr>)
   \<and> process_item nt im artist title fq (e\<lparr>e_fallback := (TimeoutExpired, st)\<rparr>)
       = process_item nt im artist title fq (e\<lparr>e_fallback := (Exited 0 [], st)\<rparr>)
   \<and> process_item nt im artist title fq (e\<lparr>e_unfiltered := (TimeoutExpired, st)\<rparr>)
       = process_item nt im artist title fq (e\<lparr>e_unfiltered := (Exited 0 [], st)\<rparr>)
   \<and> process_item nt im artist title fq (e\<lparr>e_manual := (TimeoutExpired, st)\<rparr>)
       = process_item nt im artist title fq (e\<lparr>e_manual := (Exited 0 [], st)\<rparr>)"
proof -
  have "worker_search_videos TimeoutExpired stop_is_set = ([], Some [])"
    and "worker_search_videos (Exited 0 []) stop_is_set = ([], Some [])"
    by (simp_all add: worker_search_videos_def)
  moreover have "process_item nt im artist title fq (e\<lparr>e_official := (TimeoutExpired, st)\<rparr>)
       = process_item nt im artist title fq (e\<lparr>e_official := (Exited 0 [], st)\<rparr>)"
    by (rule process_item_env_cong) (simp_all add: do_search_timeout)
  moreover have "process_item nt im artist title fq (e\<lparr>e_fallback := (TimeoutExpired, st)\<rparr>)
       = process_item nt im artist title fq (e\<lparr>e_fallback := (Exited 0 [], st)\<rparr>)"
    by (rule process_item_env_cong) (simp_all add: do_search_timeout)
  moreover have "process_item nt im artist title fq (e\<lparr>e_unfiltered := (TimeoutExpired, st)\<rparr>)
       = process_item nt im artist title fq (e\<lparr>e_unfiltered := (Exited 0 [], st)\<rparr>)"
    by (rule process_item_env_cong) (simp_all add: do_search_timeout)
  moreover have "process_item nt im artist title fq (e\<lparr>e_manual := (TimeoutExpired, st)\<rparr>)
       = process_item nt im artist title fq (e\<lparr>e_manual := (Exited 0 [], st)\<rparr>)"
    by (rule process_item_env_cong) (simp_all add: do_search_timeout)
  ultimately show ?thesis
    by simp
qed

text \<open>
  A time-out cannot be told from zero results and differs from a failure: the file whose
  official search times out is queued for a manual search, as after zero results, where a
  failed search would end it with the status \<^verbatim>\<open>Error\<close>.
\<close>

theorem timeout_failure_counterexample:
  "worker_search_videos TimeoutExpired False = worker_search_videos (Exited 0 []) False
   \<and> worker_search_videos TimeoutExpired False \<noteq> worker_search_videos OtherException False
   \<and> process_item False False ''Artist'' ''Song'' ''file''
        (blank_env\<lparr>e_official := (TimeoutExpired, False)\<rparr>)
      = process_item False False ''Artist'' ''Song'' ''file''
          (blank_env\<lparr>e_official := (Exited 0 [], False)\<rparr>)
   \<and> process_item False False ''Artist'' ''Song'' ''file''
        (blank_env\<lparr>e_official := (TimeoutExpired, False)\<rparr>)
      = Go (initial_wstate\<lparr>final_status := Some STATUS_NEEDS_REVIEW,
              gui_queue := [StatusUpdate STATUS_SEARCHING, StatusUpdate STATUS_SEARCHING,
                            ReviewNeeded Search []]\<rparr>)"
  by code_simp

section \<open>A skipped selection\<close>

text \<open>
  Claim C10. In interactive mode, let the automated attempts end with a request for a
  manual selection, without a selected id, a final status, a stop request or a search
  error, and let the answer on the queue be \<^verbatim>\<open>None\<close> (skip). Then the worker asks for
  the selection and ends the iteration with the final status \<^verbatim>\<open>Exhausted\<close>
  (\<open>STATUS_FAILED_ALL\<close>), which it reports; the status for a manual skip is not used.
\<close>

theorem interactive_skip_is_exhausted:
  assumes "automated_attempts nt True artist title fq e = Go s"
    and "needs_manual_action s" and "selected_video_id s = None" and "final_status s = None"
    and "\<not> stop_event s" and "\<not> search_error s"
    and "e_select_answer e = (None, False)"
  shows "process_item nt True artist title fq e =
           Go (set_final STATUS_FAILED_ALL
                 (put (AskManualSelect (action_candidates s) (action_reason s = Some Override)) s))"
proof -
  let ?asked = "put (AskManualSelect (action_candidates s) (action_reason s = Some Override)) s"
  have same: "?asked\<lparr>stop_event := False, selected_video_id := None\<rparr> = ?asked"
    "?asked\<lparr>selected_video_id := None\<rparr> = ?asked"
    "?asked\<lparr>stop_event := False\<rparr> = ?asked"
    using assms(3,5) by (cases s, simp add: put_def)+
  have "manual_action True e s = Go ?asked"
    using assms(2-5,7) same
    by (simp add: manual_action_def queue_get_def Let_def is_stop_answer_def)
  moreover have "final_outcome e ?asked = Go (set_final STATUS_FAILED_ALL ?asked)"
    using assms(3-6) by (simp add: final_outcome_def put_def)
  ultimately show ?thesis
    using assms(1) by (simp add: process_item_def)
qed

theorem interactive_skip_is_exhausted_witness:
  "process_item False True ''Artist'' ''Song'' ''file'' env_skip =
     Go (initial_wstate
          \<lparr> final_status := Some STATUS_FAILED_ALL, needs_manual_action := True,
            action_reason := Some Select,
            action_candidates :=
              [mk_candidate video_12 None (Score 12), mk_candidate video_6 None (Score 6)],
            videos_found_at_all := True,
            gui_queue :=
              [StatusUpdate STATUS_SEARCHING, StatusUpdate STATUS_FILTERING,
               AskManualSelect
                 [mk_candidate video_12 None (Score 12), mk_candidate video_6 None (Score 6)]
                 False,
               StatusUpdate STATUS_FAILED_ALL] \<rparr>)"
proof -
  let ?s = "initial_wstate
          \<lparr> needs_manual_action := True, action_reason := Some Select,
            action_candidates :=
              [mk_candidate video_12 None (Score 12), mk_candidate video_6 None (Score 6)],
            videos_found_at_all := True,
            gui_queue := [StatusUpdate STATUS_SEARCHING, StatusUpdate STATUS_FILTERING] \<rparr>"
  have a: "automated_attempts False True ''Artist'' ''Song'' ''file'' env_skip = Go ?s"
    by code_simp
  have b: "needs_manual_action ?s" "selected_video_id ?s = None" "final_status ?s = None"
    "\<not> stop_event ?s" "\<not> search_error ?s"
    by (simp_all add: initial_wstate_def)
  have c: "e_select_answer env_skip = (None, False)"
    by (simp add: env_skip_def blank_env_def)
  show ?thesis
    using interactive_skip_is_exhausted [OF a b c]
    by (simp add: set_final_def put_def initial_wstate_def)
qed

section \<open>The review queue\<close>

lemma process_single_keeps_list:
  "\<not> rv_stop rv \<Longrightarrow>
   review_list (process_single_review_item stem rv item a) = review_list a
   \<and> is_reviewing (process_single_review_item stem rv item a) = is_reviewing a"
  by (simp add: process_single_review_item_def update_file_status_def Let_def)

lemma process_next_pops:
  assumes "is_reviewing a" and "\<not> rv_stop rv" and "review_list a \<noteq> []"
  shows "review_list (process_next_review_item stem rv a) = tl (review_list a)
         \<and> is_reviewing (process_next_review_item stem rv a)"
  using assms
  by (cases "review_list a") (simp_all add: process_next_review_item_def process_single_keeps_list)

lemma review_steps_pop:
  assumes "is_reviewing a" and "list_all (\<lambda>rv. \<not> rv_stop rv) rvs"
    and "length rvs \<le> length (review_list a)"
  shows "review_list (review_steps stem rvs a) = drop (length rvs) (review_list a)
         \<and> is_reviewing (review_steps stem rvs a)"
  using assms
proof (induction rvs arbitrary: a)
  case Nil
  then show ?case by simp
next
  case (Cons rv rvs)
  then have ne: "review_list a \<noteq> []"
    by auto
  with Cons.prems have step: "review_list (process_next_review_item stem rv a) = tl (review_list a)"
    "is_reviewing (process_next_review_item stem rv a)"
    using process_next_pops [of a rv stem] by simp_all
  from Cons.prems ne have "length rvs \<le> length (tl (review_list a))"
    by (cases "review_list a") simp_all
  with Cons.IH [of "process_next_review_item stem rv a"] Cons.prems step
  show ?case
    by (simp add: drop_Suc)
qed

lemma stop_processing_review:
  assumes "\<not> worker_alive a" and "is_reviewing a"
  shows "review_list (stop_processing a) = []" and "\<not> is_reviewing (stop_processing a)"
    and "start_review_phase (stop_processing a) = stop_processing a"
  using assms
  by (auto simp: stop_processing_def start_review_phase_def update_file_status_def Let_def
      split: option.splits)

lemma stop_processing_marks:
  assumes "\<not> worker_alive a" and "is_reviewing a" and "current_review_item a = Some item"
    and "r_filepath item \<noteq> []" and "r_filepath item \<in> dom (file_list_data a)"
  shows "file_list_data (stop_processing a) (r_filepath item) = Some STATUS_SKIPPED_MANUAL"
  using assms
  by (auto simp: stop_processing_def update_file_status_def Let_def)

lemma stop_during_item:
  assumes "is_reviewing a" and "\<not> worker_alive a" and "rv_stop rv" and "review_list a \<noteq> []"
  shows "review_list (process_next_review_item stem rv a) = []"
    and "\<not> is_reviewing (process_next_review_item stem rv a)"
  using assms
  by (cases "review_list a";
      simp add: process_next_review_item_def process_single_review_item_def stop_processing_def
        update_file_status_def Let_def)+

text \<open>
  Claim C2, as amended. While the review runs and no stop is requested, processing \<open>n\<close>
  entries removes exactly the first \<open>n\<close> entries from the review list, whatever the
  outcome of each (a selection, a skip, a failed search or download, an exception): an
  entry leaves the list when it is popped and never returns. A stop request during the
  review, with no worker thread alive, marks the entry in flight as skipped, ends the
  review and empties the review list: the entries not yet popped are discarded, and a
  later start of the review finds nothing to process. So the step that pops an entry and
  is stopped while it processes the entry leaves an empty list.
\<close>

theorem review_pops_and_stop_clears:
  "(is_reviewing a \<and> list_all (\<lambda>rv. \<not> rv_stop rv) rvs \<and> length rvs \<le> length (review_list a)
      \<longrightarrow> review_list (review_steps stem rvs a) = drop (length rvs) (review_list a))
   \<and> (\<not> worker_alive a \<and> is_reviewing a \<and> current_review_item a = Some item
        \<and> r_filepath item \<noteq> [] \<and> r_filepath item \<in> dom (file_list_data a)
      \<longrightarrow> file_list_data (stop_processing a) (r_filepath item) = Some STATUS_SKIPPED_MANUAL
          \<and> review_list (stop_processing a) = []
          \<and> \<not> is_reviewing (stop_processing a)
          \<and> start_review_phase (stop_processing a) = stop_processing a)
   \<and> (\<not> worker_alive a \<and> is_reviewing a \<and> review_list a \<noteq> [] \<and> rv_stop rv
      \<longrightarrow> review_list (process_next_review_item stem rv a) = []
          \<and> \<not> is_reviewing (process_next_review_item stem rv a))"
  using review_steps_pop [of a rvs stem] stop_processing_review [of a]
    stop_processing_marks [of a item] stop_during_item [of a rv stem]
  by blast

text \<open>
  With two entries waiting behind the entry in flight, the stop request leaves none of
  them in the list.
\<close>

theorem stop_clears_queue_counterexample:
  "review_list reviewing_app = [review_entry ''b.mp3'', review_entry ''c.mp3'']
   \<and> \<not> worker_alive reviewing_app \<and> is_reviewing reviewing_app
   \<and> review_list (stop_processing reviewing_app) = []
   \<and> review_list (start_review_phase (stop_processing reviewing_app)) = []"
  by code_simp

theorem review_pops_and_stop_clears_witness:
  "review_list (review_steps (\<lambda>p. p) [blank_review_env\<lparr>rv_raises := True\<rparr>] reviewing_app)
     = [review_entry ''c.mp3'']
   \<and> file_list_data (stop_processing reviewing_app) ''a.mp3'' = Some STATUS_SKIPPED_MANUAL
   \<and> review_list (stop_processing reviewing_app) = []
   \<and> review_list (process_next_review_item (\<lambda>p. p) (blank_review_env\<lparr>rv_stop := True\<rparr>)
        reviewing_app) = []"
proof -
  have a: "is_reviewing reviewing_app
      \<and> list_all (\<lambda>rv. \<not> rv_stop rv) [blank_review_env\<lparr>rv_raises := True\<rparr>]
      \<and> length [blank_review_env\<lparr>rv_raises := True\<rparr>] \<le> length (review_list reviewing_app)"
    by (simp add: reviewing_app_def blank_review_env_def)
  have b: "\<not> worker_alive reviewing_app \<and> is_reviewing reviewing_app
      \<and> current_review_item reviewing_app = Some (review_entry ''a.mp3'')
      \<and> r_filepath (review_entry ''a.mp3'') \<noteq> []
      \<and> r_filepath (review_entry ''a.mp3'') \<in> dom (file_list_data reviewing_app)"
    by (simp add: reviewing_app_def review_entry_def)
  have c: "r_filepath (review_entry ''a.mp3'') = ''a.mp3''"
    by (simp add: review_entry_def)
  have d: "drop (length [blank_review_env\<lparr>rv_raises := True\<rparr>]) (review_list reviewing_app)
      = [review_entry ''c.mp3'']"
    by (simp add: reviewing_app_def)
  have e: "\<not> worker_alive reviewing_app \<and> is_reviewing reviewing_app
      \<and> review_list reviewing_app \<noteq> [] \<and> rv_stop (blank_review_env\<lparr>rv_stop := True\<rparr>)"
    by (simp add: reviewing_app_def)
  show ?thesis
    using review_pops_and_stop_clears [of reviewing_app "[blank_review_env\<lparr>rv_raises := True\<rparr>]"
        "\<lambda>p. p" "review_entry ''a.mp3''" "blank_review_env\<lparr>rv_stop := True\<rparr>"] a b c d e
    by simp
qed

section \<open>File names\<close>

lemma set_collapse_dots: "set (collapse_dots s) \<subseteq> set s"
  by (induction s rule: collapse_dots.induct) auto

lemma set_strip_where: "set (strip_where p s) \<subseteq> set s"
proof -
  have "set (dropWhile p (rev (dropWhile p s))) \<subseteq> set (rev (dropWhile p s))"
    by (rule set_dropWhileD [THEN subsetI])
  also have "\<dots> \<subseteq> set s"
    using set_dropWhileD [of _ p s] by auto
  finally show ?thesis
    by (simp add: strip_where_def)
qed

lemma splitext_append: "splitext p = (base, ext) \<Longrightarrow> base @ ext = p"
  by (auto simp: splitext_def Let_def split: if_splits)

lemma set_slice_to: "set (slice_to s k) \<subseteq> set s"
  by (auto simp: slice_to_def dest: in_set_takeD)

lemma length_slice_to: "0 \<le> k \<Longrightarrow> length (slice_to s k) \<le> nat k"
  by (simp add: slice_to_def)

lemma cleaned_legal: "set (cleaned name) \<inter> set illegal_chars = {}"
proof -
  let ?f = "filter (\<lambda>c. c \<notin> set illegal_chars) name"
  have "set (strip_where (\<lambda>c. c \<in> set ''.- '') (strip_where is_space (collapse_dots ?f)))
      \<subseteq> set ?f"
    using set_strip_where set_collapse_dots by (meson subset_trans)
  moreover have "set ?f \<inter> set illegal_chars = {}"
    by auto
  moreover have "set ''Untitled'' \<inter> set illegal_chars = {}"
    by (simp add: illegal_chars_def)
  ultimately show ?thesis
    unfolding cleaned_def Let_def by (auto split: if_splits)
qed

lemma cleaned_nonempty: "cleaned name \<noteq> []"
  by (simp add: cleaned_def Let_def)

lemma sanitize_cleaned:
  "worker_sanitize_filename name =
     (if name = [] then ''Untitled''
      else if int (length (cleaned name)) > MAX_FILENAME_LEN
      then (case splitext (cleaned name) of
              (base, ext) \<Rightarrow> slice_to base (MAX_FILENAME_LEN - int (length ext)) @ ext)
      else cleaned name)"
  by (simp add: worker_sanitize_filename_def cleaned_def Let_def)

text \<open>
  The sanitized name is never empty and holds none of the illegal characters; it is at
  most 200 characters long whenever the extension of the cleaned name is.
\<close>

theorem sanitize_nonempty_legal:
  "worker_sanitize_filename name \<noteq> []
   \<and> set (worker_sanitize_filename name) \<inter> set illegal_chars = {}
   \<and> (length (snd (splitext (cleaned name))) \<le> 200
        \<longrightarrow> length (worker_sanitize_filename name) \<le> 200)"
proof (cases "name = []")
  case True
  then show ?thesis
    by (simp add: worker_sanitize_filename_def illegal_chars_def)
next
  case False
  note name = this
  show ?thesis
  proof (cases "int (length (cleaned name)) > MAX_FILENAME_LEN")
    case False
    with name show ?thesis
      using cleaned_legal [of name] cleaned_nonempty [of name]
      by (simp add: sanitize_cleaned MAX_FILENAME_LEN_def)
  next
    case True
    obtain base ext where sp: "splitext (cleaned name) = (base, ext)"
      by (cases "splitext (cleaned name)")
    then have cat: "base @ ext = cleaned name"
      by (rule splitext_append)
    have res: "worker_sanitize_filename name = slice_to base (MAX_FILENAME_LEN - int (length ext)) @ ext"
      using name True sp by (simp add: sanitize_cleaned)
    have "set (slice_to base (MAX_FILENAME_LEN - int (length ext)) @ ext) \<subseteq> set (cleaned name)"
      using set_slice_to [of base] cat [symmetric] by auto
    then have legal: "set (worker_sanitize_filename name) \<inter> set illegal_chars = {}"
      using cleaned_legal [of name] res by auto
    have nonempty: "worker_sanitize_filename name \<noteq> []"
    proof (cases "ext = []")
      case True
      with cat have "base = cleaned name" by simp
      with \<open>int (length (cleaned name)) > MAX_FILENAME_LEN\<close> True res show ?thesis
        by (auto simp: slice_to_def MAX_FILENAME_LEN_def)
    next
      case False
      with res show ?thesis by simp
    qed
    have bound: "length ext \<le> 200 \<Longrightarrow> length (worker_sanitize_filename name) \<le> 200"
    proof -
      assume "length ext \<le> 200"
      then have "length (slice_to base (MAX_FILENAME_LEN - int (length ext))) \<le> 200 - length ext"
        using length_slice_to [of "MAX_FILENAME_LEN - int (length ext)" base]
        by (simp add: MAX_FILENAME_LEN_def)
      with \<open>length ext \<le> 200\<close> res show ?thesis by simp
    qed
    from legal nonempty bound sp show ?thesis by simp
  qed
qed

theorem sanitize_nonempty_legal_witness:
  "worker_sanitize_filename (replicate 250 (CHR ''a'') @ ''.mp4'') \<noteq> []
   \<and> set (worker_sanitize_filename (replicate 250 (CHR ''a'') @ ''.mp4'')) \<inter> set illegal_chars = {}
   \<and> length (worker_sanitize_filename (replicate 250 (CHR ''a'') @ ''.mp4'')) \<le> 200"
proof -
  have "length (snd (splitext (cleaned (replicate 250 (CHR ''a'') @ ''.mp4'')))) \<le> 200"
    by code_simp
  then show ?thesis
    using sanitize_nonempty_legal [of "replicate 250 (CHR ''a'') @ ''.mp4''"] by simp
qed

text \<open>
  Claim C9. The sanitized name is to be at most 200 characters long. The truncation cuts
  the base name to \<open>200 - len(ext)\<close> characters; for an extension longer than 200
  characters that number is negative, the slice counts from the end, and the extension is
  kept whole. The name \<^verbatim>\<open>a.\<close> followed by 200 letters \<^verbatim>\<open>b\<close> comes back as the dot and
  the 200 letters: 201 characters.
\<close>

theorem sanitize_exceeds_bound:
  "worker_sanitize_filename (''a.'' @ replicate 200 (CHR ''b'')) = CHR ''.'' # replicate 200 (CHR ''b'')
   \<and> length (worker_sanitize_filename (''a.'' @ replicate 200 (CHR ''b''))) = 201"
  by code_simp

end
